theory Spec2Isabelle
  imports Main
begin

section \<open>Python strings and processes\<close>

text \<open>
  A Python \<open>str\<close> is modelled as a \<open>string\<close> whose characters are the code points
  below 256 (Latin-1); the scripts only compare, strip and lower-case such text.
  A process that ends through \<open>sys.exit(1)\<close>, or through an exception nobody catches,
  is the value \<open>Inl (SysExit 1)\<close>. Standard input is the list of the lines it holds
  before its end; \<open>input()\<close> takes the first and raises EOFError on the empty list.
\<close>

datatype abort = SysExit nat

text \<open>\<open>str.isspace\<close> on the code points below 256.\<close>

definition py_isspace :: "char \<Rightarrow> bool" where
  "py_isspace c = (c \<in> set [CHR 0x09, CHR 0x0A, CHR 0x0B, CHR 0x0C, CHR 0x0D,
     CHR 0x1C, CHR 0x1D, CHR 0x1E, CHR 0x1F, CHR 0x20, CHR 0x85, CHR 0xA0])"

text \<open>\<open>s.strip()\<close>: leading and trailing whitespace removed.\<close>

definition py_strip :: "string \<Rightarrow> string" where
  "py_strip s = rev (dropWhile py_isspace (rev (dropWhile py_isspace s)))"

text \<open>\<open>s.lower()\<close> on the code points below 256: A-Z, and the Latin-1 capitals
  0xC0-0xDE without the multiplication sign 0xD7.\<close>

definition upper_chars :: "char list" where
  "upper_chars = ''ABCDEFGHIJKLMNOPQRSTUVWXYZ'' @
     [CHR 0xC0, CHR 0xC1, CHR 0xC2, CHR 0xC3, CHR 0xC4, CHR 0xC5, CHR 0xC6, CHR 0xC7,
      CHR 0xC8, CHR 0xC9, CHR 0xCA, CHR 0xCB, CHR 0xCC, CHR 0xCD, CHR 0xCE, CHR 0xCF,
      CHR 0xD0, CHR 0xD1, CHR 0xD2, CHR 0xD3, CHR 0xD4, CHR 0xD5, CHR 0xD6,
      CHR 0xD8, CHR 0xD9, CHR 0xDA, CHR 0xDB, CHR 0xDC, CHR 0xDD, CHR 0xDE]"

definition lower_chars :: "char list" where
  "lower_chars = ''abcdefghijklmnopqrstuvwxyz'' @
     [CHR 0xE0, CHR 0xE1, CHR 0xE2, CHR 0xE3, CHR 0xE4, CHR 0xE5, CHR 0xE6, CHR 0xE7,
      CHR 0xE8, CHR 0xE9, CHR 0xEA, CHR 0xEB, CHR 0xEC, CHR 0xED, CHR 0xEE, CHR 0xEF,
      CHR 0xF0, CHR 0xF1, CHR 0xF2, CHR 0xF3, CHR 0xF4, CHR 0xF5, CHR 0xF6,
      CHR 0xF8, CHR 0xF9, CHR 0xFA, CHR 0xFB, CHR 0xFC, CHR 0xFD, CHR 0xFE]"

definition py_lower_char :: "char \<Rightarrow> char" where
  "py_lower_char c = (case map_of (zip upper_chars lower_chars) c of None \<Rightarrow> c | Some l \<Rightarrow> l)"

definition py_lower :: "string \<Rightarrow> string" where
  "py_lower s = map py_lower_char s"

text \<open>\<open>str(n)\<close> for a non-negative integer: its decimal digits.\<close>

definition digit_char :: "nat \<Rightarrow> char" where
  "digit_char d = ''0123456789'' ! d"

fun str_nat :: "nat \<Rightarrow> string" where
  "str_nat n = (if n < 10 then [digit_char n] else str_nat (n div 10) @ [digit_char (n mod 10)])"

declare str_nat.simps [simp del]

text \<open>\<open>s.split(d)\<close> for a one-character separator: never empty, one part more than
  there are separators.\<close>

fun py_split :: "char \<Rightarrow> string \<Rightarrow> string list" where
  "py_split d [] = [[]]"
| "py_split d (c # cs) =
     (if c = d then [] # py_split d cs
      else (case py_split d cs of [] \<Rightarrow> [[c]] | p # ps \<Rightarrow> (c # p) # ps))"

text \<open>\<open>xs[i]\<close> for \<open>i \<ge> 0\<close>: \<open>None\<close> is the IndexError.\<close>

definition py_index :: "'a list \<Rightarrow> nat \<Rightarrow> 'a option" where
  "py_index xs i = (if i < length xs then Some (xs ! i) else None)"

section \<open>Paged listings\<close>

text \<open>
  A listing endpoint of a provider holds its items in pages. One request without a
  continuation token answers with the first page; the Azure SDK's \<open>ItemPaged\<close>
  iterator, consumed by \<open>list(...)\<close>, requests every page in turn.
\<close>

type_synonym 'a paged = "'a list list"

definition first_page :: "'a paged \<Rightarrow> 'a list" where
  "first_page ps = (case ps of [] \<Rightarrow> [] | p # _ \<Rightarrow> p)"

definition all_pages :: "'a paged \<Rightarrow> 'a list" where
  "all_pages ps = concat ps"

section \<open>Kubernetes clusters as kubectl shows them\<close>

text \<open>
  What the scripts see of a cluster is the standard output of three \<open>kubectl\<close> commands,
  piped through \<open>wc -l\<close>. A cluster is modelled by the rows \<open>kubectl get nodes\<close> prints,
  and by its pods, each with the row \<open>kubectl get pods\<close> prints for it and the names of
  its container statuses. \<open>kubectl\<close> is an external tool: with \<open>--no-headers\<close> it prints one
  line per object and nothing on standard output for an empty list; the jsonpath query
  prints the names separated by one space, with no final line break; without a usable
  context, or when the API server does not answer, it prints nothing on standard output
  and ends with a non-zero status.
\<close>

record k8s =
  node_rows :: "string list"
  pods :: "(string \<times> string list) list"

type_synonym kube_api = "string \<Rightarrow> k8s option"

definition table_no_headers :: "string list \<Rightarrow> string" where
  "table_no_headers rows = concat (map (\<lambda>r. r @ [CHR 0x0A]) rows)"

text \<open>\<open>sep.join(xs)\<close> for a one-character separator.\<close>

fun join_with :: "char \<Rightarrow> string list \<Rightarrow> string" where
  "join_with sep [] = []"
| "join_with sep [x] = x"
| "join_with sep (x # y # ys) = x @ sep # join_with sep (y # ys)"

definition get_nodes_no_headers :: "k8s \<Rightarrow> string" where
  "get_nodes_no_headers k = table_no_headers (node_rows k)"

definition get_pods_no_headers :: "k8s \<Rightarrow> string" where
  "get_pods_no_headers k = table_no_headers (map fst (pods k))"

definition get_pods_jsonpath_names :: "k8s \<Rightarrow> string" where
  "get_pods_jsonpath_names k = join_with CHR '' '' (concat (map snd (pods k)))"

text \<open>\<open>kubectl\<close> under a current context: exit status and standard output.\<close>

definition kubectl :: "kube_api \<Rightarrow> string option \<Rightarrow> (k8s \<Rightarrow> string) \<Rightarrow> nat \<times> string" where
  "kubectl api ctx render =
     (case ctx of None \<Rightarrow> (1, [])
      | Some c \<Rightarrow> (case api c of None \<Rightarrow> (1, []) | Some k \<Rightarrow> (0, render k)))"

text \<open>The shell filters of the pipelines: \<open>wc -l\<close> prints the number of line breaks of
  its input and a line break; \<open>tr " " "\n"\<close> turns every space into a line break. A
  pipeline ends with the status of its last command, so \<open>... | wc -l\<close> always ends
  with status 0.\<close>

definition wc_l :: "string \<Rightarrow> string" where
  "wc_l s = str_nat (length (filter (\<lambda>c. c = CHR 0x0A) s)) @ [CHR 0x0A]"

definition tr_space_newline :: "string \<Rightarrow> string" where
  "tr_space_newline s = map (\<lambda>c. if c = CHR '' '' then CHR 0x0A else c) s"

text \<open>The three counts, as both scripts compute them: the decoded and stripped output
  of the pipelines.\<close>

definition count_nodes :: "kube_api \<Rightarrow> string option \<Rightarrow> string" where
  "count_nodes api ctx = py_strip (wc_l (snd (kubectl api ctx get_nodes_no_headers)))"

definition count_pods :: "kube_api \<Rightarrow> string option \<Rightarrow> string" where
  "count_pods api ctx = py_strip (wc_l (snd (kubectl api ctx get_pods_no_headers)))"

definition count_containers :: "kube_api \<Rightarrow> string option \<Rightarrow> string" where
  "count_containers api ctx =
     py_strip (wc_l (tr_space_newline (snd (kubectl api ctx get_pods_jsonpath_names))))"

text \<open>The dictionary appended to \<open>clusters_data\<close>, with its keys in insertion order.\<close>

type_synonym cluster_data = "(string \<times> string) list"

definition cluster_entry :: "string \<Rightarrow> string \<Rightarrow> string \<Rightarrow> string \<Rightarrow> cluster_data" where
  "cluster_entry cluster_name nodes pods_n containers =
     [(''Cluster Name'', cluster_name), (''Nodes'', nodes), (''Pods'', pods_n),
      (''Containers'', containers)]"

section \<open>The Azure script\<close>

record azure_env =
  azure_tools_ok :: bool
  interactive_browser_credential :: bool
  virtual_machines_list_all :: "string \<Rightarrow> string paged option"
  virtual_networks_list_all :: "string \<Rightarrow> string paged option"
  storage_accounts_list :: "string \<Rightarrow> string paged option"
  managed_clusters_list :: "string \<Rightarrow> string paged option"
  az_aks_get_credentials :: "string \<Rightarrow> string \<Rightarrow> string option \<Rightarrow> nat \<times> string option"
  aks_api :: kube_api

text \<open>
  The fields are what the outside world answers: whether \<open>check_tools\<close> finds or installs
  its tools, whether the credential constructor returns, for each subscription the pages
  of the four listings (\<open>None\<close>: the client or the listing raises), what the shell line
  \<open>az aks get-credentials --resource-group ... --name ...\<close> does for a resource group and
  a cluster name under a current kubeconfig context, and the clusters behind the
  Kubernetes API. The script pastes the two texts unquoted into a line run with
  \<open>shell=True\<close>, so that line is not always one call of \<open>az\<close>: the environment answers
  its return code and the current context it leaves, and return code 0 alone does not
  say that the named cluster is now the context.
\<close>

subsection \<open>\<open>login_azure\<close>\<close>

definition is_hex :: "char \<Rightarrow> bool" where
  "is_hex c = (c \<in> set ''0123456789abcdefABCDEF'')"

primrec take_hex :: "nat \<Rightarrow> string \<Rightarrow> string option" where
  "take_hex 0 s = Some s"
| "take_hex (Suc n) s =
     (case s of [] \<Rightarrow> None | c # cs \<Rightarrow> if is_hex c then take_hex n cs else None)"

definition take_dash :: "string \<Rightarrow> string option" where
  "take_dash s = (case s of [] \<Rightarrow> None | c # cs \<Rightarrow> if c = CHR ''-'' then Some cs else None)"

text \<open>\<open>$\<close> without \<open>re.MULTILINE\<close>: the end of the string, or just before a line break
  that ends it.\<close>

definition at_dollar :: "string \<Rightarrow> bool" where
  "at_dollar s = (s = [] \<or> s = [CHR 0x0A])"

text \<open>\<open>re.match(r'^[0-9a-f]{8}-[0-9a-f]{4}-[0-9a-f]{4}-[0-9a-f]{4}-[0-9a-f]{12}$', s, re.I)\<close>\<close>

definition subscription_id_match :: "string \<Rightarrow> bool" where
  "subscription_id_match s =
     (case Option.bind (Option.bind (Option.bind (Option.bind (Option.bind (Option.bind
            (Option.bind (Option.bind (take_hex 8 s) take_dash) (take_hex 4)) take_dash)
            (take_hex 4)) take_dash) (take_hex 4)) take_dash) (take_hex 12)
      of None \<Rightarrow> False | Some r \<Rightarrow> at_dollar r)"

text \<open>What \<open>login_azure\<close> does to the outside, in order.\<close>

datatype effect = Print string | Read_Line | New_Credential

datatype credential = InteractiveBrowserCredential

text \<open>\<open>login_azure\<close> on the lines standard input still holds: its effects, and either the
  abort or the credential, the subscription id and the lines left. \<open>input()\<close> at the end
  of input raises EOFError, which nothing catches here. The validation comes before the
  \<open>try\<close> that constructs the credential; the text of a caught exception is left out of
  the printed message.\<close>

definition login_azure ::
  "azure_env \<Rightarrow> string list \<Rightarrow> effect list \<times> (abort + credential \<times> string \<times> string list)" where
  "login_azure env stdin =
     (case stdin of
        [] \<Rightarrow> ([Print ''Please enter your Azure subscription ID:'', Read_Line], Inl (SysExit 1))
      | line # rest \<Rightarrow>
          (let subscription_id = py_strip line in
           if \<not> subscription_id_match subscription_id
           then ([Print ''Please enter your Azure subscription ID:'', Read_Line,
                  Print ''Invalid subscription ID.''], Inl (SysExit 1))
           else if \<not> interactive_browser_credential env
           then ([Print ''Please enter your Azure subscription ID:'', Read_Line, New_Credential,
                  Print ''Error logging into Azure''], Inl (SysExit 1))
           else ([Print ''Please enter your Azure subscription ID:'', Read_Line, New_Credential],
                 Inr (InteractiveBrowserCredential, subscription_id, rest))))"

subsection \<open>\<open>get_inventory\<close>\<close>

text \<open>The inventory dictionary, with its keys in insertion order. Any exception of the
  body is caught and ends the process.\<close>

type_synonym inventory = "(string \<times> nat) list"

definition azure_get_inventory :: "azure_env \<Rightarrow> string \<Rightarrow> abort + inventory" where
  "azure_get_inventory env subscription_id =
     (case virtual_machines_list_all env subscription_id of
        None \<Rightarrow> Inl (SysExit 1)
      | Some vms \<Rightarrow>
     (case virtual_networks_list_all env subscription_id of
        None \<Rightarrow> Inl (SysExit 1)
      | Some nets \<Rightarrow>
     (case storage_accounts_list env subscription_id of
        None \<Rightarrow> Inl (SysExit 1)
      | Some accts \<Rightarrow>
     (case managed_clusters_list env subscription_id of
        None \<Rightarrow> Inl (SysExit 1)
      | Some aks \<Rightarrow>
          Inr [(''VMs'', length (all_pages vms)),
               (''Networks'', length (all_pages nets)),
               (''Storage Accounts'', length (all_pages accts)),
               (''AKS Clusters'', length (all_pages aks))]))))"

subsection \<open>\<open>get_aks_data\<close>\<close>

text \<open>
  The body of the loop once a cluster name is accepted and its resource group is read,
  under the current context \<open>ctx\<close> of the kubeconfig. The credential command leaves a
  context \<open>ctx'\<close>; on a non-zero return code the script prints a diagnostic and appends
  nothing; on return code 0 it counts whatever cluster \<open>ctx'\<close> names and records the
  counts under the name that was typed. \<open>kubectl config view\<close> only reads the local file;
  \<open>kubectl get pods\<close> runs with \<open>check=True\<close>, so its non-zero status raises.
\<close>

definition aks_collect ::
  "azure_env \<Rightarrow> string option \<Rightarrow> string \<Rightarrow> string \<Rightarrow> abort + string option \<times> cluster_data option" where
  "aks_collect env ctx resource_group cluster_name =
     (case az_aks_get_credentials env resource_group cluster_name ctx of
        (returncode, ctx') \<Rightarrow>
          if returncode \<noteq> 0 then Inr (ctx', None)
          else if fst (kubectl (aks_api env) ctx' get_pods_no_headers) \<noteq> 0 then Inl (SysExit 1)
          else Inr (ctx', Some (cluster_entry cluster_name
                      (count_nodes (aks_api env) ctx')
                      (count_pods (aks_api env) ctx')
                      (count_containers (aks_api env) ctx'))))"

text \<open>The \<open>while True\<close> loop over the lines standard input still holds. \<open>input()\<close> at the
  end of input raises EOFError, which the \<open>except Exception\<close> turns into \<open>sys.exit(1)\<close>.\<close>

fun aks_loop ::
  "azure_env \<Rightarrow> string list \<Rightarrow> string option \<Rightarrow> cluster_data list \<Rightarrow> string list
     \<Rightarrow> abort + cluster_data list" where
  "aks_loop env clusters ctx clusters_data [] = Inl (SysExit 1)"
| "aks_loop env clusters ctx clusters_data (line # rest) =
     (let cluster_name = py_strip line in
      if py_lower cluster_name = ''done'' then Inr clusters_data
      else if cluster_name \<in> set clusters then
        (case rest of
           [] \<Rightarrow> Inl (SysExit 1)
         | line2 # rest2 \<Rightarrow>
             (case aks_collect env ctx (py_strip line2) cluster_name of
                Inl e \<Rightarrow> Inl e
              | Inr (ctx', None) \<Rightarrow> aks_loop env clusters ctx' clusters_data rest2
              | Inr (ctx', Some d) \<Rightarrow> aks_loop env clusters ctx' (clusters_data @ [d]) rest2))
      else aks_loop env clusters ctx clusters_data rest)"

definition get_aks_data ::
  "azure_env \<Rightarrow> string \<Rightarrow> string option \<Rightarrow> string list \<Rightarrow> abort + cluster_data list" where
  "get_aks_data env subscription_id ctx stdin =
     (case managed_clusters_list env subscription_id of
        None \<Rightarrow> Inl (SysExit 1)
      | Some ps \<Rightarrow> aks_loop env (all_pages ps) ctx [] stdin)"

section \<open>The AWS script\<close>

record aws_env =
  aws_tools_ok :: bool
  get_caller_identity :: bool
  describe_instances :: "string list paged option"
  describe_vpcs :: "string paged option"
  list_buckets :: "string paged option"
  list_clusters :: "string paged option"
  describe_cluster :: "string \<Rightarrow> string option"
  update_kubeconfig :: "string \<Rightarrow> string \<Rightarrow> nat"
  eks_api :: kube_api

text \<open>
  The pages of the four listings (\<open>None\<close>: the client or the call raises; a reservation
  is the list of its instances), the ARN \<open>describe_cluster\<close> answers for a cluster name,
  the exit status of \<open>aws eks update-kubeconfig\<close> for a region and a name, and the
  clusters behind the Kubernetes API.
\<close>

definition aws_get_inventory :: "aws_env \<Rightarrow> abort + inventory" where
  "aws_get_inventory env =
     (case describe_instances env of
        None \<Rightarrow> Inl (SysExit 1)
      | Some reservations \<Rightarrow>
     (case describe_vpcs env of
        None \<Rightarrow> Inl (SysExit 1)
      | Some vpcs \<Rightarrow>
     (case list_buckets env of
        None \<Rightarrow> Inl (SysExit 1)
      | Some buckets \<Rightarrow>
     (case list_clusters env of
        None \<Rightarrow> Inl (SysExit 1)
      | Some clusters \<Rightarrow>
          Inr [(''EC2 Instances'', length (first_page reservations)),
               (''VPCs'', length (first_page vpcs)),
               (''S3 Buckets'', length (first_page buckets)),
               (''EKS Clusters'', length (first_page clusters))]))))"

subsection \<open>\<open>get_eks_data\<close>\<close>

text \<open>
  The script itself moves the kubeconfig around: \<open>aws eks update-kubeconfig\<close> writes the
  cluster into the file \<open>KUBECONFIG\<close> names (\<open>~/.kube/config\<close> when it is unset) and makes
  it the current context there; \<open>kubectl config view --merge --flatten > kubeconfig.yaml\<close>
  copies the active kubeconfig into \<open>kubeconfig.yaml\<close> of the working directory; then
  \<open>os.environ["KUBECONFIG"]\<close> is pointed at that copy. So the local state is the variable
  and, for each kubeconfig file, the cluster its current context names (\<open>None\<close> for a
  file that is absent, empty or without a current context).
\<close>

datatype kube_path = Home_Kube_Config | Cwd_Kubeconfig_Yaml | Other_Path string

record local_state =
  KUBECONFIG :: "kube_path option"
  current_context :: "kube_path \<Rightarrow> string option"

definition active_kubeconfig :: "local_state \<Rightarrow> kube_path" where
  "active_kubeconfig st = (case KUBECONFIG st of None \<Rightarrow> Home_Kube_Config | Some p \<Rightarrow> p)"

definition write_kubeconfig :: "local_state \<Rightarrow> string \<Rightarrow> local_state" where
  "write_kubeconfig st cluster_name =
     st\<lparr>current_context := (current_context st)(active_kubeconfig st := Some cluster_name)\<rparr>"

text \<open>\<open>subprocess.run(..., shell=True)\<close> hands the command to \<open>sh\<close> with the process's
  environment. The shell opens the target of \<open>>\<close> and truncates it before it starts
  \<open>kubectl\<close>; \<open>kubectl\<close> then reads the active kubeconfig (an empty file is an empty
  configuration, no error) and its output lands in the target. When \<open>KUBECONFIG\<close>
  already names \<open>kubeconfig.yaml\<close>, the file read is the file just truncated.\<close>

definition flatten_to_kubeconfig_yaml :: "local_state \<Rightarrow> local_state" where
  "flatten_to_kubeconfig_yaml st =
     (let truncated = (current_context st)(Cwd_Kubeconfig_Yaml := None);
          shown = truncated (active_kubeconfig st)
      in st\<lparr>current_context := truncated(Cwd_Kubeconfig_Yaml := shown)\<rparr>)"

text \<open>The body of the \<open>for\<close> loop, for one cluster name. Every failure raises inside the
  \<open>try\<close>: \<open>describe_cluster\<close>, the index into the split ARN, and the \<open>check=True\<close> of the
  credential command. \<open>kubectl config view\<close> only reads local files and is taken to end
  with status 0; the three counting pipelines end with the status of \<open>wc\<close>, so
  \<open>check_output\<close> never raises on them.\<close>

definition eks_collect ::
  "aws_env \<Rightarrow> local_state \<Rightarrow> string \<Rightarrow> abort + local_state \<times> cluster_data" where
  "eks_collect env st cluster_name =
     (case describe_cluster env cluster_name of
        None \<Rightarrow> Inl (SysExit 1)
      | Some arn \<Rightarrow>
     (case py_index (py_split CHR '':'' arn) 3 of
        None \<Rightarrow> Inl (SysExit 1)
      | Some region \<Rightarrow>
          if update_kubeconfig env region cluster_name \<noteq> 0 then Inl (SysExit 1)
          else (let st1 = write_kubeconfig st cluster_name;
                    st2 = flatten_to_kubeconfig_yaml st1;
                    st3 = st2\<lparr>KUBECONFIG := Some Cwd_Kubeconfig_Yaml\<rparr>;
                    ctx = current_context st3 (active_kubeconfig st3)
                in Inr (st3, cluster_entry cluster_name
                          (count_nodes (eks_api env) ctx)
                          (count_pods (eks_api env) ctx)
                          (count_containers (eks_api env) ctx)))))"

fun eks_loop ::
  "aws_env \<Rightarrow> local_state \<Rightarrow> cluster_data list \<Rightarrow> string list \<Rightarrow> abort + cluster_data list" where
  "eks_loop env st clusters_data [] = Inr clusters_data"
| "eks_loop env st clusters_data (cluster_name # rest) =
     (case eks_collect env st cluster_name of
        Inl e \<Rightarrow> Inl e
      | Inr (st', d) \<Rightarrow> eks_loop env st' (clusters_data @ [d]) rest)"

definition get_eks_data :: "aws_env \<Rightarrow> local_state \<Rightarrow> abort + cluster_data list" where
  "get_eks_data env st =
     (case list_clusters env of
        None \<Rightarrow> Inl (SysExit 1)
      | Some ps \<Rightarrow> eks_loop env st [] (first_page ps))"

section \<open>The CSV reports\<close>

text \<open>
  \<open>csv.DictWriter\<close> with the default dialect: fields separated by a comma, a field
  holding a comma, a double quote, a carriage return or a line feed is put between
  double quotes with its double quotes doubled, a row ends with carriage return and
  line feed. A row that is one empty field is written as two double quotes.
\<close>

definition csv_special :: "char \<Rightarrow> bool" where
  "csv_special c = (c = CHR '','' \<or> c = CHR 0x22 \<or> c = CHR 0x0D \<or> c = CHR 0x0A)"

definition csv_escape :: "string \<Rightarrow> string" where
  "csv_escape s = concat (map (\<lambda>c. if c = CHR 0x22 then [c, c] else [c]) s)"

definition csv_field :: "string \<Rightarrow> string" where
  "csv_field s = (if list_ex csv_special s then CHR 0x22 # csv_escape s @ [CHR 0x22] else s)"

definition csv_writerow :: "string list \<Rightarrow> string" where
  "csv_writerow cells =
     (if cells = [[]] then [CHR 0x22, CHR 0x22] else join_with CHR '','' (map csv_field cells))
     @ [CHR 0x0D, CHR 0x0A]"

text \<open>\<open>DictWriter._dict_to_list\<close>: a key outside the field names raises ValueError
  (\<open>None\<close>); the values are taken in the order of the field names, a missing one is
  the empty string.\<close>

definition dict_get :: "(string \<times> string) list \<Rightarrow> string \<Rightarrow> string" where
  "dict_get rowdict k = (case map_of rowdict k of None \<Rightarrow> [] | Some v \<Rightarrow> v)"

definition dict_to_list :: "string list \<Rightarrow> (string \<times> string) list \<Rightarrow> string list option" where
  "dict_to_list fieldnames rowdict =
     (if list_ex (\<lambda>k. k \<notin> set fieldnames) (map fst rowdict) then None
      else Some (map (dict_get rowdict) fieldnames))"

fun dict_writerows :: "string list \<Rightarrow> (string \<times> string) list list \<Rightarrow> string option" where
  "dict_writerows fieldnames [] = Some []"
| "dict_writerows fieldnames (r # rs) =
     (case dict_to_list fieldnames r of
        None \<Rightarrow> None
      | Some cells \<Rightarrow>
          (case dict_writerows fieldnames rs of
             None \<Rightarrow> None
           | Some t \<Rightarrow> Some (csv_writerow cells @ t)))"

text \<open>The text of a file: \<open>writeheader()\<close>, then one \<open>writerow\<close> per dictionary.\<close>

definition write_csv :: "string list \<Rightarrow> (string \<times> string) list list \<Rightarrow> string option" where
  "write_csv fieldnames rows =
     map_option (\<lambda>t. csv_writerow fieldnames @ t) (dict_writerows fieldnames rows)"

definition inventory_rows :: "inventory \<Rightarrow> (string \<times> string) list list" where
  "inventory_rows inventory_dict =
     map (\<lambda>(resource_type, n). [(''Resource Type'', resource_type), (''Count'', str_nat n)]) inventory_dict"

definition inventory_fieldnames :: "string list" where
  "inventory_fieldnames = [''Resource Type'', ''Count'']"

definition cluster_fieldnames :: "string list" where
  "cluster_fieldnames = [''Cluster Name'', ''Nodes'', ''Pods'', ''Containers'']"

text \<open>The two \<open>with open(..., 'w', newline='')\<close> blocks of both scripts: the files
  written, by name, with their text.\<close>

definition write_reports ::
  "string \<Rightarrow> string \<Rightarrow> inventory \<Rightarrow> cluster_data list \<Rightarrow> abort + (string \<times> string) list" where
  "write_reports inventory_file cluster_file inventory_dict data =
     (case write_csv inventory_fieldnames (inventory_rows inventory_dict) of
        None \<Rightarrow> Inl (SysExit 1)
      | Some inventory_csv \<Rightarrow>
          (case write_csv cluster_fieldnames data of
             None \<Rightarrow> Inl (SysExit 1)
           | Some cluster_csv \<Rightarrow>
               Inr [(inventory_file, inventory_csv), (cluster_file, cluster_csv)]))"

subsection \<open>Reading a report back\<close>

text \<open>
  The counterpart of the writer is \<open>csv.reader\<close> of the same module and dialect, over a
  file opened with \<open>newline=''\<close>. The file hands the text over line by line, a line
  ending after a line feed, after a carriage return that no line feed follows, or at the
  end of the text; the reader sees the characters of each line and then the
  pseudo-character \<open>EOL\<close>. (The reader of Python 3.11 and later, which takes every
  character as data; nothing of the scripts reads the reports, so this is the reader a
  user of the module would call.)
\<close>

datatype sym = Ch char | EOL

fun text_syms :: "string \<Rightarrow> sym list" where
  "text_syms [] = []"
| "text_syms [c] = [Ch c, EOL]"
| "text_syms (c # d # cs) =
     (if c = CHR 0x0A \<or> (c = CHR 0x0D \<and> d \<noteq> CHR 0x0A)
      then Ch c # EOL # text_syms (d # cs)
      else Ch c # text_syms (d # cs))"

text \<open>The state machine of the reader (\<open>parse_process_char\<close>), without the states that
  only an escape character reaches: the state, the field being read and the fields of
  the record so far. \<open>None\<close> is \<open>csv.Error\<close>.\<close>

datatype parse_state =
  START_RECORD | START_FIELD | IN_FIELD | IN_QUOTED_FIELD | QUOTE_IN_QUOTED_FIELD | EAT_CRNL

type_synonym parser = "parse_state \<times> string \<times> string list"

definition parse_reset :: parser where
  "parse_reset = (START_RECORD, [], [])"

definition parse_save_field :: "parse_state \<Rightarrow> string \<Rightarrow> string list \<Rightarrow> parser" where
  "parse_save_field next_state field row = (next_state, [], row @ [field])"

definition after_line_end :: "sym \<Rightarrow> parse_state" where
  "after_line_end x = (if x = EOL then START_RECORD else EAT_CRNL)"

definition is_line_end :: "sym \<Rightarrow> bool" where
  "is_line_end x = (x = Ch (CHR 0x0A) \<or> x = Ch (CHR 0x0D) \<or> x = EOL)"

definition start_field :: "string \<Rightarrow> string list \<Rightarrow> sym \<Rightarrow> parser option" where
  "start_field field row x =
     (if is_line_end x then Some (parse_save_field (after_line_end x) field row)
      else if x = Ch (CHR 0x22) then Some (IN_QUOTED_FIELD, field, row)
      else if x = Ch (CHR '','') then Some (parse_save_field START_FIELD field row)
      else (case x of Ch c \<Rightarrow> Some (IN_FIELD, field @ [c], row) | EOL \<Rightarrow> None))"

fun parse_process_char :: "parser \<Rightarrow> sym \<Rightarrow> parser option" where
  "parse_process_char (START_RECORD, field, row) x =
     (if x = EOL then Some (START_RECORD, field, row)
      else if x = Ch (CHR 0x0A) \<or> x = Ch (CHR 0x0D) then Some (EAT_CRNL, field, row)
      else start_field field row x)"
| "parse_process_char (START_FIELD, field, row) x = start_field field row x"
| "parse_process_char (IN_FIELD, field, row) x =
     (if is_line_end x then Some (parse_save_field (after_line_end x) field row)
      else if x = Ch (CHR '','') then Some (parse_save_field START_FIELD field row)
      else (case x of Ch c \<Rightarrow> Some (IN_FIELD, field @ [c], row) | EOL \<Rightarrow> None))"
| "parse_process_char (IN_QUOTED_FIELD, field, row) x =
     (case x of
        EOL \<Rightarrow> Some (IN_QUOTED_FIELD, field, row)
      | Ch c \<Rightarrow> if c = CHR 0x22 then Some (QUOTE_IN_QUOTED_FIELD, field, row)
                else Some (IN_QUOTED_FIELD, field @ [c], row))"
| "parse_process_char (QUOTE_IN_QUOTED_FIELD, field, row) x =
     (if x = Ch (CHR 0x22) then Some (IN_QUOTED_FIELD, field @ [CHR 0x22], row)
      else if x = Ch (CHR '','') then Some (parse_save_field START_FIELD field row)
      else if is_line_end x then Some (parse_save_field (after_line_end x) field row)
      else (case x of Ch c \<Rightarrow> Some (IN_FIELD, field @ [c], row) | EOL \<Rightarrow> None))"
| "parse_process_char (EAT_CRNL, field, row) x =
     (if x = Ch (CHR 0x0A) \<or> x = Ch (CHR 0x0D) then Some (EAT_CRNL, field, row)
      else if x = EOL then Some (START_RECORD, field, row)
      else None)"

text \<open>\<open>list(csv.reader(f))\<close>: a record is complete when, after the \<open>EOL\<close> of a line, the
  state is \<open>START_RECORD\<close> again; at the end of the text a field in progress, or an open
  quoted field, still closes a last record.\<close>

fun read_syms :: "parser \<Rightarrow> sym list \<Rightarrow> string list list option" where
  "read_syms (st, field, row) [] =
     (if field \<noteq> [] \<or> st = IN_QUOTED_FIELD then Some [row @ [field]] else Some [])"
| "read_syms p (x # xs) =
     (case parse_process_char p x of
        None \<Rightarrow> None
      | Some (st, field, row) \<Rightarrow>
          if x = EOL \<and> st = START_RECORD
          then (case read_syms parse_reset xs of None \<Rightarrow> None | Some rows \<Rightarrow> Some (row # rows))
          else read_syms (st, field, row) xs)"

definition csv_reader :: "string \<Rightarrow> string list list option" where
  "csv_reader text = read_syms parse_reset (text_syms text)"

section \<open>The two main programs\<close>

text \<open>
  The \<open>__main__\<close> blocks, from \<open>check_tools()\<close> on (the imports and the package check at
  the top of the modules are left out): on success, the files written. \<open>check_tools\<close>
  is its outcome in the environment; the Azure program starts under some current
  kubeconfig context, the AWS program in some local state.
\<close>

definition azure_main ::
  "azure_env \<Rightarrow> string option \<Rightarrow> string list \<Rightarrow> abort + (string \<times> string) list" where
  "azure_main env ctx stdin =
     (if \<not> azure_tools_ok env then Inl (SysExit 1)
      else (case snd (login_azure env stdin) of
              Inl e \<Rightarrow> Inl e
            | Inr (credential, subscription_id, rest) \<Rightarrow>
          (case azure_get_inventory env subscription_id of
              Inl e \<Rightarrow> Inl e
            | Inr inventory_dict \<Rightarrow>
          (case get_aks_data env subscription_id ctx rest of
              Inl e \<Rightarrow> Inl e
            | Inr aks_data \<Rightarrow>
                write_reports ''azure_inventory.csv'' ''aks_data.csv'' inventory_dict aks_data))))"

definition login_aws :: "aws_env \<Rightarrow> abort + unit" where
  "login_aws env = (if get_caller_identity env then Inr () else Inl (SysExit 1))"

definition aws_main :: "aws_env \<Rightarrow> local_state \<Rightarrow> abort + (string \<times> string) list" where
  "aws_main env st =
     (if \<not> aws_tools_ok env then Inl (SysExit 1)
      else (case login_aws env of
              Inl e \<Rightarrow> Inl e
            | Inr _ \<Rightarrow>
          (case aws_get_inventory env of
              Inl e \<Rightarrow> Inl e
            | Inr inventory_dict \<Rightarrow>
          (case get_eks_data env st of
              Inl e \<Rightarrow> Inl e
            | Inr eks_data \<Rightarrow>
                write_reports ''aws_inventory.csv'' ''eks_data.csv'' inventory_dict eks_data))))"

section \<open>Notions used to state the properties\<close>

text \<open>Access to an EKS cluster resolves when \<open>describe_cluster\<close> answers an ARN with a
  region part and \<open>aws eks update-kubeconfig\<close> ends with status 0.\<close>

definition eks_access_ok :: "aws_env \<Rightarrow> string \<Rightarrow> bool" where
  "eks_access_ok env cluster_name =
     (case describe_cluster env cluster_name of
        None \<Rightarrow> False
      | Some arn \<Rightarrow>
          (case py_index (py_split CHR '':'' arn) 3 of
             None \<Rightarrow> False
           | Some region \<Rightarrow> update_kubeconfig env region cluster_name = 0))"

text \<open>The context \<open>kubectl\<close> runs under after the body of the AWS loop has prepared the
  kubeconfig for a cluster.\<close>

definition eks_context_after :: "local_state \<Rightarrow> string \<Rightarrow> string option" where
  "eks_context_after st cluster_name =
     (if KUBECONFIG st = Some Cwd_Kubeconfig_Yaml then None else Some cluster_name)"

text \<open>An interactive selection as typed: the line with the cluster name, then the line
  with its resource group. The credential command for a resource group and a name is
  regular when it behaves as one call of \<open>az aks get-credentials\<close>: its return code does
  not depend on the context it starts from, and return code 0 leaves the named cluster
  as the current context. For a regular command, access resolves when the return code
  is 0.\<close>

fun selection_lines :: "(string \<times> string) list \<Rightarrow> string list" where
  "selection_lines [] = []"
| "selection_lines ((name_line, group_line) # sel) = name_line # group_line # selection_lines sel"

definition credentials_regular :: "azure_env \<Rightarrow> string \<Rightarrow> string \<Rightarrow> bool" where
  "credentials_regular env resource_group cluster_name =
     (\<forall>ctx. fst (az_aks_get_credentials env resource_group cluster_name ctx) =
              fst (az_aks_get_credentials env resource_group cluster_name None) \<and>
            (fst (az_aks_get_credentials env resource_group cluster_name ctx) = 0 \<longrightarrow>
             snd (az_aks_get_credentials env resource_group cluster_name ctx) = Some cluster_name))"

definition aks_access_ok :: "azure_env \<Rightarrow> string \<times> string \<Rightarrow> bool" where
  "aks_access_ok env sel =
     (fst (az_aks_get_credentials env (py_strip (snd sel)) (py_strip (fst sel)) None) = 0)"

text \<open>The entry the Azure loop appends for a cluster it could reach.\<close>

definition aks_summary :: "azure_env \<Rightarrow> string \<Rightarrow> cluster_data" where
  "aks_summary env cluster_name =
     cluster_entry cluster_name
       (count_nodes (aks_api env) (Some cluster_name))
       (count_pods (aks_api env) (Some cluster_name))
       (count_containers (aks_api env) (Some cluster_name))"

subsection \<open>Example environments\<close>

definition example_api :: kube_api where
  "example_api = (\<lambda>c.
     if c = ''a'' then Some \<lparr>node_rows = [''node-1''],
                              pods = [(''kube-system coredns'', [''coredns''])]\<rparr>
     else if c = ''b'' then Some \<lparr>node_rows = [''node-1'', ''node-2''],
                                   pods = [(''default web'', [''nginx'', ''sidecar''])]\<rparr>
     else if c = ''empty'' then Some \<lparr>node_rows = [], pods = []\<rparr>
     else None)"

definition example_azure_env :: azure_env where
  "example_azure_env = \<lparr>
     azure_tools_ok = True,
     interactive_browser_credential = True,
     virtual_machines_list_all = (\<lambda>_. Some [[''vm-1'', ''vm-2''], [''vm-3'']]),
     virtual_networks_list_all = (\<lambda>_. Some [[''vnet-1'']]),
     storage_accounts_list = (\<lambda>_. Some [[]]),
     managed_clusters_list = (\<lambda>_. Some [[''a'', ''b''], [''empty'']]),
     az_aks_get_credentials = (\<lambda>resource_group cluster_name ctx.
        if resource_group = ''rg'' \<and> cluster_name \<noteq> ''a'' then (0, Some cluster_name)
        else (1, ctx)),
     aks_api = example_api\<rparr>"

definition example_aws_env :: aws_env where
  "example_aws_env = \<lparr>
     aws_tools_ok = True,
     get_caller_identity = True,
     describe_instances = Some [[[''i-1''], [''i-2'']]],
     describe_vpcs = Some [[''vpc-1'']],
     list_buckets = Some [[]],
     list_clusters = Some [[''a'', ''b'']],
     describe_cluster = (\<lambda>cluster_name.
        Some (''arn:aws:eks:us-east-1:123456789012:cluster/'' @ cluster_name)),
     update_kubeconfig = (\<lambda>region cluster_name. 0),
     eks_api = example_api\<rparr>"

text \<open>The same Azure environment with only cluster \<open>b\<close> answering: access to \<open>empty\<close>
  is granted, and then \<open>kubectl\<close> cannot reach it.\<close>

definition silent_azure_env :: azure_env where
  "silent_azure_env =
     example_azure_env\<lparr>aks_api := (\<lambda>c. if c = ''b'' then example_api c else None)\<rparr>"


text \<open>A process started with \<open>KUBECONFIG\<close> unset and no kubeconfig file yet.\<close>

definition fresh_state :: local_state where
  "fresh_state = \<lparr>KUBECONFIG = None, current_context = (\<lambda>_. None)\<rparr>"

text \<open>An account with 101 EKS clusters: \<open>list_clusters\<close> holds them in a page of 100
  (its largest page) and a page of one.\<close>

definition eks_pages_101 :: "string paged" where
  "eks_pages_101 = [map (\<lambda>i. ''cluster-'' @ str_nat i) [0..<100], [''cluster-100'']]"

section \<open>Properties\<close>

subsection \<open>Counting with \<open>wc -l\<close>\<close>

lemma str_nat_0: "str_nat 0 = ''0''"
  by (simp add: str_nat.simps [of 0] digit_char_def)

lemma strip_wc_l_Nil: "py_strip (wc_l []) = ''0''"
  by (simp add: wc_l_def str_nat_0 py_strip_def py_isspace_def)




lemma counts_without_context:
  "count_nodes api None = ''0''" "count_pods api None = ''0''"
  "count_containers api None = ''0''"
  by (simp_all add: count_nodes_def count_pods_def count_containers_def kubectl_def
      tr_space_newline_def strip_wc_l_Nil)

subsection \<open>One pass of each collector\<close>

lemma aks_collect_denied:
  "fst (az_aks_get_credentials env rg name ctx) \<noteq> 0 \<Longrightarrow>
   aks_collect env ctx rg name = Inr (snd (az_aks_get_credentials env rg name ctx), None)"
  by (cases "az_aks_get_credentials env rg name ctx") (simp add: aks_collect_def)

lemma aks_collect_unreachable:
  "az_aks_get_credentials env rg name ctx = (0, Some name) \<Longrightarrow> aks_api env name = None \<Longrightarrow>
   aks_collect env ctx rg name = Inl (SysExit 1)"
  by (simp add: aks_collect_def kubectl_def)

lemma aks_collect_ok:
  "az_aks_get_credentials env rg name ctx = (0, Some name) \<Longrightarrow> aks_api env name = Some k \<Longrightarrow>
   aks_collect env ctx rg name = Inr (Some name, Some (aks_summary env name))"
  by (simp add: aks_collect_def kubectl_def aks_summary_def)

text \<open>Return code 0 with another cluster left as the context: the script records the
  typed name with the counts of that other cluster.\<close>

lemma aks_collect_counts_context_left:
  "az_aks_get_credentials env rg name ctx = (0, Some other) \<Longrightarrow> aks_api env other = Some k \<Longrightarrow>
   aks_collect env ctx rg name = Inr (Some other, Some (cluster_entry name
      (count_nodes (aks_api env) (Some other)) (count_pods (aks_api env) (Some other))
      (count_containers (aks_api env) (Some other))))"
  by (simp add: aks_collect_def kubectl_def)

lemma aks_collect_entry:
  "aks_collect env ctx rg name = Inr (ctx', Some d) \<Longrightarrow> \<exists>n p c. d = cluster_entry name n p c"
  by (auto simp: aks_collect_def split: prod.splits if_splits)

lemma credentials_regular_cases:
  assumes "credentials_regular env rg name"
  shows "fst (az_aks_get_credentials env rg name None) \<noteq> 0 \<Longrightarrow>
           fst (az_aks_get_credentials env rg name ctx) \<noteq> 0"
    and "fst (az_aks_get_credentials env rg name None) = 0 \<Longrightarrow>
           az_aks_get_credentials env rg name ctx = (0, Some name)"
  using assms by (auto simp: credentials_regular_def prod_eq_iff)

lemma eks_collect_ok:
  "eks_access_ok env name \<Longrightarrow>
   \<exists>st'. eks_collect env st name = Inr (st', cluster_entry name
        (count_nodes (eks_api env) (eks_context_after st name))
        (count_pods (eks_api env) (eks_context_after st name))
        (count_containers (eks_api env) (eks_context_after st name)))
     \<and> KUBECONFIG st' = Some Cwd_Kubeconfig_Yaml"
  by (auto simp: eks_access_ok_def eks_collect_def eks_context_after_def Let_def
        write_kubeconfig_def flatten_to_kubeconfig_yaml_def active_kubeconfig_def
        split: option.splits)

lemma eks_collect_fail:
  "\<not> eks_access_ok env name \<Longrightarrow> eks_collect env st name = Inl (SysExit 1)"
  by (auto simp: eks_access_ok_def eks_collect_def split: option.splits)

lemma eks_collect_entry:
  "eks_collect env st c = Inr (st', d) \<Longrightarrow> \<exists>n p k. d = cluster_entry c n p k"
  by (auto simp: eks_collect_def Let_def split: option.splits if_splits)


subsection \<open>The inventory\<close>

lemma azure_inventory_counts_all_pages:
  "azure_get_inventory env sub = Inr inventory_dict \<Longrightarrow>
   \<exists>vms nets accts aks.
     virtual_machines_list_all env sub = Some vms \<and> virtual_networks_list_all env sub = Some nets \<and>
     storage_accounts_list env sub = Some accts \<and> managed_clusters_list env sub = Some aks \<and>
     inventory_dict = [(''VMs'', length (concat vms)), (''Networks'', length (concat nets)),
            (''Storage Accounts'', length (concat accts)), (''AKS Clusters'', length (concat aks))]"
  by (auto simp: azure_get_inventory_def all_pages_def split: option.splits)

lemma aws_inventory_counts_first_pages:
  "aws_get_inventory env = Inr inventory_dict \<Longrightarrow>
   \<exists>rs vpcs buckets clusters.
     describe_instances env = Some rs \<and> describe_vpcs env = Some vpcs \<and>
     list_buckets env = Some buckets \<and> list_clusters env = Some clusters \<and>
     inventory_dict = [(''EC2 Instances'', length (first_page rs)), (''VPCs'', length (first_page vpcs)),
            (''S3 Buckets'', length (first_page buckets)),
            (''EKS Clusters'', length (first_page clusters))]"
  by (auto simp: aws_get_inventory_def split: option.splits)

text \<open>
  C2. \<open>countResources\<close> is to return, for every category, the number of items across all
  result pages, so page size + 1 items give page size + 1. The Azure script does
  (\<open>azure_inventory_counts_all_pages\<close>); the AWS script makes one request per category
  and counts its answer: with 101 EKS clusters, held in a page of 100 and a page of 1,
  it reports 100.
\<close>

theorem aws_inventory_stops_at_first_page:
  "length (all_pages eks_pages_101) = 101 \<and>
   aws_get_inventory (example_aws_env\<lparr>list_clusters := Some eks_pages_101\<rparr>) =
     Inr [(''EC2 Instances'', 2), (''VPCs'', 1), (''S3 Buckets'', 0), (''EKS Clusters'', 100)]"
  by (simp add: aws_get_inventory_def example_aws_env_def eks_pages_101_def first_page_def
      all_pages_def)

text \<open>
  C3. If any one of the fixed listing queries fails, \<open>get_inventory\<close> ends the process
  with status 1 and returns no inventory; when it does return one, every category is in
  it. This holds for both scripts, and the main program ends with it: no report file is
  written.
\<close>

theorem inventory_is_all_or_nothing:
  "(aws_get_inventory aenv = Inl (SysExit 1) \<longleftrightarrow>
      describe_instances aenv = None \<or> describe_vpcs aenv = None \<or>
      list_buckets aenv = None \<or> list_clusters aenv = None)
   \<and> (\<forall>i. aws_get_inventory aenv = Inr i \<longrightarrow>
         map fst i = [''EC2 Instances'', ''VPCs'', ''S3 Buckets'', ''EKS Clusters''])
   \<and> (aws_get_inventory aenv = Inl (SysExit 1) \<longrightarrow> aws_main aenv st = Inl (SysExit 1))
   \<and> (azure_get_inventory env sub = Inl (SysExit 1) \<longleftrightarrow>
      virtual_machines_list_all env sub = None \<or> virtual_networks_list_all env sub = None \<or>
      storage_accounts_list env sub = None \<or> managed_clusters_list env sub = None)
   \<and> (\<forall>i. azure_get_inventory env sub = Inr i \<longrightarrow>
         map fst i = [''VMs'', ''Networks'', ''Storage Accounts'', ''AKS Clusters''])
   \<and> (snd (login_azure env stdin) = Inr (cred, sub, rest) \<and>
        azure_get_inventory env sub = Inl (SysExit 1) \<longrightarrow>
          azure_main env ctx stdin = Inl (SysExit 1))"
proof -
  have a1: "aws_get_inventory aenv = Inl (SysExit 1) \<longleftrightarrow>
      describe_instances aenv = None \<or> describe_vpcs aenv = None \<or>
      list_buckets aenv = None \<or> list_clusters aenv = None"
    by (auto simp: aws_get_inventory_def split: option.splits)
  have a2: "\<forall>i. aws_get_inventory aenv = Inr i \<longrightarrow>
         map fst i = [''EC2 Instances'', ''VPCs'', ''S3 Buckets'', ''EKS Clusters'']"
    by (auto simp: aws_get_inventory_def split: option.splits)
  have a3: "aws_get_inventory aenv = Inl (SysExit 1) \<longrightarrow> aws_main aenv st = Inl (SysExit 1)"
    by (simp add: aws_main_def login_aws_def)
  have z1: "azure_get_inventory env sub = Inl (SysExit 1) \<longleftrightarrow>
      virtual_machines_list_all env sub = None \<or> virtual_networks_list_all env sub = None \<or>
      storage_accounts_list env sub = None \<or> managed_clusters_list env sub = None"
    by (auto simp: azure_get_inventory_def split: option.splits)
  have z2: "\<forall>i. azure_get_inventory env sub = Inr i \<longrightarrow>
         map fst i = [''VMs'', ''Networks'', ''Storage Accounts'', ''AKS Clusters'']"
    by (auto simp: azure_get_inventory_def split: option.splits)
  have z3: "snd (login_azure env stdin) = Inr (cred, sub, rest) \<and>
        azure_get_inventory env sub = Inl (SysExit 1) \<longrightarrow>
          azure_main env ctx stdin = Inl (SysExit 1)"
    by (simp add: azure_main_def)
  from a1 a2 a3 z1 z2 z3 show ?thesis by blast
qed

theorem inventory_is_all_or_nothing_witness:
  "aws_get_inventory (example_aws_env\<lparr>describe_vpcs := None\<rparr>) = Inl (SysExit 1)
   \<and> aws_main (example_aws_env\<lparr>describe_vpcs := None\<rparr>) fresh_state = Inl (SysExit 1)
   \<and> azure_get_inventory (example_azure_env\<lparr>storage_accounts_list := (\<lambda>_. None)\<rparr>) ''s''
       = Inl (SysExit 1)"
proof -
  have "describe_vpcs (example_aws_env\<lparr>describe_vpcs := None\<rparr>) = None" by simp
  moreover have "storage_accounts_list (example_azure_env\<lparr>storage_accounts_list := (\<lambda>_. None)\<rparr>) ''s''
      = None" by simp
  ultimately show ?thesis
    using inventory_is_all_or_nothing [of "example_aws_env\<lparr>describe_vpcs := None\<rparr>" fresh_state
        "example_azure_env\<lparr>storage_accounts_list := (\<lambda>_. None)\<rparr>" "''s''"]
    by blast
qed

text \<open>
  C4. A subscription id that does not match the expected pattern makes \<open>login_azure\<close>
  end the process with status 1 right after the prompt: it has printed two messages and
  read one line, and has not constructed the credential or reached the provider. The
  main program ends with it, whatever the environment.
\<close>

theorem malformed_subscription_id_is_fatal_at_once:
  "\<not> subscription_id_match (py_strip line) \<Longrightarrow>
   login_azure env (line # rest) =
     ([Print ''Please enter your Azure subscription ID:'', Read_Line,
       Print ''Invalid subscription ID.''], Inl (SysExit 1))
   \<and> New_Credential \<notin> set (fst (login_azure env (line # rest)))
   \<and> azure_main env ctx (line # rest) = Inl (SysExit 1)"
  by (simp add: login_azure_def azure_main_def)

theorem malformed_subscription_id_is_fatal_at_once_witness:
  "\<not> subscription_id_match (py_strip '' 1234-not-a-guid '')
   \<and> login_azure example_azure_env ['' 1234-not-a-guid '', ''done''] =
     ([Print ''Please enter your Azure subscription ID:'', Read_Line,
       Print ''Invalid subscription ID.''], Inl (SysExit 1))
   \<and> azure_main example_azure_env None ['' 1234-not-a-guid '', ''done''] = Inl (SysExit 1)"
proof -
  have bad: "\<not> subscription_id_match (py_strip '' 1234-not-a-guid '')"
    by code_simp
  from malformed_subscription_id_is_fatal_at_once [OF bad, of example_azure_env "[''done'']" None]
  show ?thesis using bad by simp
qed

subsection \<open>The loops of the collectors\<close>

lemma aks_loop_batch:
  assumes "\<forall>s\<in>set sel. py_strip (fst s) \<in> set clusters \<and> py_lower (py_strip (fst s)) \<noteq> ''done''"
    and "\<forall>s\<in>set sel. credentials_regular env (py_strip (snd s)) (py_strip (fst s))"
    and "\<forall>s\<in>set sel. aks_access_ok env s \<longrightarrow> aks_api env (py_strip (fst s)) \<noteq> None"
    and "py_lower (py_strip sentinel) = ''done''"
  shows "aks_loop env clusters ctx acc (selection_lines sel @ sentinel # rest) =
         Inr (acc @ map (\<lambda>s. aks_summary env (py_strip (fst s))) (filter (aks_access_ok env) sel))"
  using assms
proof (induction sel arbitrary: ctx acc)
  case Nil
  then show ?case by simp
next
  case (Cons s sel)
  obtain n g where s: "s = (n, g)" by (cases s)
  have n_ok: "py_strip n \<in> set clusters" "py_lower (py_strip n) \<noteq> ''done''"
    using Cons.prems(1) s by auto
  have reg: "credentials_regular env (py_strip g) (py_strip n)"
    using Cons.prems(2) s by auto
  have IH: "\<And>ctx acc. aks_loop env clusters ctx acc (selection_lines sel @ sentinel # rest) =
         Inr (acc @ map (\<lambda>s. aks_summary env (py_strip (fst s))) (filter (aks_access_ok env) sel))"
    using Cons.IH Cons.prems by simp
  show ?case
  proof (cases "aks_access_ok env s")
    case False
    then have "fst (az_aks_get_credentials env (py_strip g) (py_strip n) ctx) \<noteq> 0"
      using s credentials_regular_cases(1)[OF reg] by (simp add: aks_access_ok_def)
    then have "aks_collect env ctx (py_strip g) (py_strip n) =
        Inr (snd (az_aks_get_credentials env (py_strip g) (py_strip n) ctx), None)"
      by (rule aks_collect_denied)
    then show ?thesis using False s n_ok IH by simp
  next
    case True
    then have az: "az_aks_get_credentials env (py_strip g) (py_strip n) ctx = (0, Some (py_strip n))"
      using s credentials_regular_cases(2)[OF reg] by (simp add: aks_access_ok_def)
    obtain k where "aks_api env (py_strip n) = Some k"
      using True Cons.prems(3) s by auto
    then have "aks_collect env ctx (py_strip g) (py_strip n) =
        Inr (Some (py_strip n), Some (aks_summary env (py_strip n)))"
      using az by (simp add: aks_collect_ok)
    then show ?thesis using True s n_ok IH by simp
  qed
qed

lemma aks_loop_silent:
  assumes "\<forall>s\<in>set sel. py_strip (fst s) \<in> set clusters \<and> py_lower (py_strip (fst s)) \<noteq> ''done''"
    and "\<forall>s\<in>set sel. credentials_regular env (py_strip (snd s)) (py_strip (fst s))"
    and "\<exists>s\<in>set sel. aks_access_ok env s \<and> aks_api env (py_strip (fst s)) = None"
  shows "aks_loop env clusters ctx acc (selection_lines sel @ tail_lines) = Inl (SysExit 1)"
  using assms
proof (induction sel arbitrary: ctx acc)
  case Nil
  then show ?case by simp
next
  case (Cons s sel)
  obtain n g where s: "s = (n, g)" by (cases s)
  have n_ok: "py_strip n \<in> set clusters" "py_lower (py_strip n) \<noteq> ''done''"
    using Cons.prems(1) s by auto
  have reg: "credentials_regular env (py_strip g) (py_strip n)"
    using Cons.prems(2) s by auto
  have tail: "\<exists>s\<in>set sel. aks_access_ok env s \<and> aks_api env (py_strip (fst s)) = None \<Longrightarrow>
      aks_loop env clusters ctx' acc' (selection_lines sel @ tail_lines) = Inl (SysExit 1)" for ctx' acc'
    using Cons.IH Cons.prems(1,2) by simp
  show ?case
  proof (cases "aks_access_ok env s")
    case False
    then have "fst (az_aks_get_credentials env (py_strip g) (py_strip n) ctx) \<noteq> 0"
      using s credentials_regular_cases(1)[OF reg] by (simp add: aks_access_ok_def)
    then have c: "aks_collect env ctx (py_strip g) (py_strip n) =
        Inr (snd (az_aks_get_credentials env (py_strip g) (py_strip n) ctx), None)"
      by (rule aks_collect_denied)
    have "\<exists>s\<in>set sel. aks_access_ok env s \<and> aks_api env (py_strip (fst s)) = None"
      using Cons.prems(3) False by auto
    from tail[OF this] c show ?thesis using s n_ok by simp
  next
    case True
    then have az: "az_aks_get_credentials env (py_strip g) (py_strip n) ctx = (0, Some (py_strip n))"
      using s credentials_regular_cases(2)[OF reg] by (simp add: aks_access_ok_def)
    show ?thesis
    proof (cases "aks_api env (py_strip n)")
      case None
      then have "aks_collect env ctx (py_strip g) (py_strip n) = Inl (SysExit 1)"
        using az by (simp add: aks_collect_unreachable)
      then show ?thesis using s n_ok by simp
    next
      case (Some k)
      then have c: "aks_collect env ctx (py_strip g) (py_strip n) =
          Inr (Some (py_strip n), Some (aks_summary env (py_strip n)))"
        using az by (simp add: aks_collect_ok)
      have "\<exists>s\<in>set sel. aks_access_ok env s \<and> aks_api env (py_strip (fst s)) = None"
        using Cons.prems(3) Some s by auto
      from tail[OF this] c show ?thesis using s n_ok by simp
    qed
  qed
qed

lemma aks_loop_entries:
  "aks_loop env clusters ctx acc stdin = Inr data \<Longrightarrow>
   (\<forall>d\<in>set acc. \<exists>name\<in>set clusters. \<exists>n p c. d = cluster_entry name n p c) \<Longrightarrow>
   (\<forall>d\<in>set data. \<exists>name\<in>set clusters. \<exists>n p c. d = cluster_entry name n p c)
   \<and> (\<exists>line\<in>set stdin. py_lower (py_strip line) = ''done'')"
proof (induction env clusters ctx acc stdin rule: aks_loop.induct)
  case (1 env clusters ctx clusters_data)
  then show ?case by simp
next
  case (2 env clusters ctx clusters_data line rest)
  show ?case
  proof (cases "py_lower (py_strip line) = ''done''")
    case True
    then show ?thesis using "2.prems" by simp
  next
    case notdone: False
    show ?thesis
    proof (cases "py_strip line \<in> set clusters")
      case False
      then show ?thesis using notdone "2.IH"(3) "2.prems" by simp
    next
      case True
      show ?thesis
      proof (cases rest)
        case Nil
        then show ?thesis using notdone True "2.prems" by simp
      next
        case (Cons line2 rest2)
        show ?thesis
        proof (cases "aks_collect env ctx (py_strip line2) (py_strip line)")
          case (Inl e)
          then show ?thesis using notdone True Cons "2.prems" by simp
        next
          case (Inr r)
          obtain ctx' od where r: "r = (ctx', od)" by (cases r)
          show ?thesis
          proof (cases od)
            case None
            have step: "aks_loop env clusters ctx' clusters_data rest2 = Inr data"
              using notdone True Cons Inr r None "2.prems"(1) by simp
            show ?thesis
              using "2.IH"(1)[OF refl notdone True Cons Inr r[symmetric] None step "2.prems"(2)] Cons
              by simp
          next
            case (Some d)
            have d: "\<exists>n p c. d = cluster_entry (py_strip line) n p c"
              using Inr r Some aks_collect_entry by blast
            have step: "aks_loop env clusters ctx' (clusters_data @ [d]) rest2 = Inr data"
              using notdone True Cons Inr r Some "2.prems"(1) by simp
            have inv: "\<forall>d'\<in>set (clusters_data @ [d]).
                \<exists>name\<in>set clusters. \<exists>n p c. d' = cluster_entry name n p c"
              using d True "2.prems"(2) by auto
            show ?thesis
              using "2.IH"(2)[OF refl notdone True Cons Inr r[symmetric] Some step inv] Cons
              by simp
          qed
        qed
      qed
    qed
  qed
qed

lemma aks_loop_rejected_then_done:
  "\<forall>l\<in>set junk. py_strip l \<notin> set clusters \<Longrightarrow> py_lower (py_strip sentinel) = ''done'' \<Longrightarrow>
   aks_loop env clusters ctx acc (junk @ sentinel # rest) = Inr acc"
  by (induction junk) (auto simp: Let_def)

lemma eks_loop_abort:
  "\<exists>c\<in>set names. \<not> eks_access_ok env c \<Longrightarrow> eks_loop env st acc names = Inl (SysExit 1)"
proof (induction names arbitrary: st acc)
  case Nil
  then show ?case by simp
next
  case (Cons c names)
  show ?case
  proof (cases "eks_access_ok env c")
    case False
    then show ?thesis by (simp add: eks_collect_fail)
  next
    case True
    then obtain st' d where "eks_collect env st c = Inr (st', d)"
      using eks_collect_ok[of env c st] by blast
    moreover have "\<exists>c\<in>set names. \<not> eks_access_ok env c" using Cons.prems True by auto
    ultimately show ?thesis using Cons.IH by simp
  qed
qed

lemma eks_loop_entries:
  "eks_loop env st acc names = Inr data \<Longrightarrow>
   \<exists>ds. data = acc @ ds \<and> list_all2 (\<lambda>c d. \<exists>n p k. d = cluster_entry c n p k) names ds"
proof (induction names arbitrary: st acc)
  case Nil
  then show ?case by simp
next
  case (Cons c names)
  then obtain st' d where cd: "eks_collect env st c = Inr (st', d)"
    and rest: "eks_loop env st' (acc @ [d]) names = Inr data"
    by (auto split: sum.splits)
  from Cons.IH[OF rest] obtain ds where ds: "data = (acc @ [d]) @ ds"
    "list_all2 (\<lambda>c d. \<exists>n p k. d = cluster_entry c n p k) names ds" by blast
  from eks_collect_entry[OF cd] ds show ?case
    by (intro exI[of _ "d # ds"]) simp
qed

text \<open>
  C1 (as the code has it). The claim asks for a summary with an unknown/error marker for
  a cluster whose credential fetch fails. Neither script has such a marker. In the Azure
  loop, take a list of selections of enumerated names whose credential commands are
  regular, followed by the sentinel. A selection whose command returns non-zero gets a
  printed diagnostic and no summary, and the loop goes on. If every selection whose
  command returns 0 has a cluster that answers \<open>kubectl\<close>, the collector returns exactly
  the summaries of those selections, in order. If some selection's command returns 0
  and its cluster does not answer, \<open>kubectl get pods\<close> raises and the whole run ends with
  status 1, without the summaries already collected. In the AWS loop a failed credential
  fetch for any listed cluster ends the process with status 1.
\<close>

theorem failed_access_is_skipped_or_fatal:
  "(managed_clusters_list env sub = Some ps \<and>
    (\<forall>s\<in>set sel. py_strip (fst s) \<in> set (all_pages ps) \<and> py_lower (py_strip (fst s)) \<noteq> ''done'') \<and>
    (\<forall>s\<in>set sel. credentials_regular env (py_strip (snd s)) (py_strip (fst s))) \<and>
    py_lower (py_strip sentinel) = ''done''
    \<longrightarrow> ((\<forall>s\<in>set sel. aks_access_ok env s \<longrightarrow> aks_api env (py_strip (fst s)) \<noteq> None)
           \<longrightarrow> get_aks_data env sub ctx (selection_lines sel @ sentinel # rest) =
                 Inr (map (\<lambda>s. aks_summary env (py_strip (fst s))) (filter (aks_access_ok env) sel)))
        \<and> ((\<exists>s\<in>set sel. aks_access_ok env s \<and> aks_api env (py_strip (fst s)) = None)
           \<longrightarrow> get_aks_data env sub ctx (selection_lines sel @ sentinel # rest) = Inl (SysExit 1)))
   \<and> (list_clusters aenv = Some aps \<and> (\<exists>c\<in>set (first_page aps). \<not> eks_access_ok aenv c)
    \<longrightarrow> get_eks_data aenv st = Inl (SysExit 1))"
  using aks_loop_batch[of sel "all_pages ps" env sentinel ctx "[]" rest]
    aks_loop_silent[of sel "all_pages ps" env ctx "[]" "sentinel # rest"]
    eks_loop_abort[of "first_page aps" aenv st "[]"]
  by (auto simp: get_aks_data_def get_eks_data_def)

theorem failed_access_is_skipped_or_fatal_witness:
  "get_aks_data example_azure_env ''s'' None
     (selection_lines [(''a'', ''rg''), ('' b '', ''rg'')] @ ''Done'' # []) =
     Inr [aks_summary example_azure_env ''b'']
   \<and> get_aks_data silent_azure_env ''s'' None
     (selection_lines [('' b '', ''rg''), (''empty'', ''rg'')] @ ''Done'' # []) = Inl (SysExit 1)
   \<and> get_eks_data (example_aws_env\<lparr>update_kubeconfig := (\<lambda>r n. if n = ''b'' then 255 else 0)\<rparr>)
        fresh_state = Inl (SysExit 1)"
proof -
  let ?aenv = "example_aws_env\<lparr>update_kubeconfig := (\<lambda>r n. if n = ''b'' then 255 else 0)\<rparr>"
  let ?sel = "[(''a'', ''rg''), ('' b '', ''rg'')]"
  let ?sel2 = "[('' b '', ''rg''), (''empty'', ''rg'')]"
  have strip: "py_strip ''a'' = ''a''" "py_strip '' b '' = ''b''" "py_strip ''rg'' = ''rg''"
    "py_strip ''empty'' = ''empty''"
    "py_lower (py_strip ''Done'') = ''done''" "py_lower ''a'' \<noteq> ''done''" "py_lower ''b'' \<noteq> ''done''"
    "py_lower ''empty'' \<noteq> ''done''"
    by code_simp+
  have h1: "managed_clusters_list example_azure_env ''s'' = Some [[''a'', ''b''], [''empty'']]"
    "managed_clusters_list silent_azure_env ''s'' = Some [[''a'', ''b''], [''empty'']]"
    by (simp_all add: example_azure_env_def silent_azure_env_def)
  have h2: "\<forall>s\<in>set ?sel. py_strip (fst s) \<in> set (all_pages [[''a'', ''b''], [''empty'']]) \<and>
      py_lower (py_strip (fst s)) \<noteq> ''done''"
    "\<forall>s\<in>set ?sel2. py_strip (fst s) \<in> set (all_pages [[''a'', ''b''], [''empty'']]) \<and>
      py_lower (py_strip (fst s)) \<noteq> ''done''"
    by (simp_all add: strip all_pages_def)
  have reg: "\<forall>s\<in>set ?sel. credentials_regular example_azure_env (py_strip (snd s)) (py_strip (fst s))"
    "\<forall>s\<in>set ?sel2. credentials_regular silent_azure_env (py_strip (snd s)) (py_strip (fst s))"
    by (simp_all add: strip credentials_regular_def example_azure_env_def silent_azure_env_def)
  have h3: "\<forall>s\<in>set ?sel.
      aks_access_ok example_azure_env s \<longrightarrow> aks_api example_azure_env (py_strip (fst s)) \<noteq> None"
    by (simp add: strip aks_access_ok_def example_azure_env_def example_api_def)
  have h3': "\<exists>s\<in>set ?sel2.
      aks_access_ok silent_azure_env s \<and> aks_api silent_azure_env (py_strip (fst s)) = None"
    by (simp add: strip aks_access_ok_def example_azure_env_def silent_azure_env_def)
  have h4: "list_clusters ?aenv = Some [[''a'', ''b'']]"
    by (simp add: example_aws_env_def)
  have h5: "\<exists>c\<in>set (first_page [[''a'', ''b'']]). \<not> eks_access_ok ?aenv c"
    by (simp add: first_page_def eks_access_ok_def example_aws_env_def py_index_def)
  have sel: "filter (aks_access_ok example_azure_env) ?sel = [('' b '', ''rg'')]"
    by (simp add: strip aks_access_ok_def example_azure_env_def)
  note inst = failed_access_is_skipped_or_fatal [of example_azure_env "''s''" "[[''a'', ''b''], [''empty'']]"
      ?sel "''Done''" None "[]" ?aenv "[[''a'', ''b'']]" fresh_state]
  note inst2 = failed_access_is_skipped_or_fatal [of silent_azure_env "''s''" "[[''a'', ''b''], [''empty'']]"
      ?sel2 "''Done''" None "[]" ?aenv "[[''a'', ''b'']]" fresh_state]
  have azure: "get_aks_data example_azure_env ''s'' None (selection_lines ?sel @ ''Done'' # []) =
     Inr (map (\<lambda>s. aks_summary example_azure_env (py_strip (fst s)))
        (filter (aks_access_ok example_azure_env) ?sel))"
    using inst h1(1) h2(1) reg(1) h3 strip(5) by blast
  have silent: "get_aks_data silent_azure_env ''s'' None (selection_lines ?sel2 @ ''Done'' # []) =
     Inl (SysExit 1)"
    using inst2 h1(2) h2(2) reg(2) h3' strip(5) by blast
  have aws: "get_eks_data ?aenv fresh_state = Inl (SysExit 1)"
    using inst h4 h5 by blast
  show ?thesis using azure silent aws unfolding sel by (simp add: strip)
qed

text \<open>
  C1 (as stated) fails. With access denied for cluster \<open>a\<close> and granted for \<open>b\<close>, the Azure
  collector returns the summary of \<open>b\<close> alone: nothing stands for \<open>a\<close>. With access denied
  for \<open>b\<close>, the AWS collector returns nothing at all, not even for \<open>a\<close>.
\<close>

theorem failed_access_gets_no_marked_summary:
  "fst (az_aks_get_credentials example_azure_env ''rg'' ''a'' None) \<noteq> 0
   \<and> get_aks_data example_azure_env ''s'' None [''a'', ''rg'', ''b'', ''rg'', ''done''] =
       Inr [cluster_entry ''b'' ''2'' ''1'' ''1'']
   \<and> eks_access_ok (example_aws_env\<lparr>update_kubeconfig := (\<lambda>r n. if n = ''b'' then 255 else 0)\<rparr>) ''a''
   \<and> get_eks_data (example_aws_env\<lparr>update_kubeconfig := (\<lambda>r n. if n = ''b'' then 255 else 0)\<rparr>)
        fresh_state = Inl (SysExit 1)"
  by code_simp




text \<open>
  C8. Every summary a collector returns carries the name of an enumerated cluster. In the
  interactive (Azure) mode a name is accepted only when it is in the enumerated list,
  and the loop returns only after a line that, stripped and lower-cased, is the sentinel
  \<open>done\<close>: every other way out of the loop ends the process. In the automated (AWS)
  mode the names of the summaries are the enumerated names, in order.
\<close>

theorem summaries_name_enumerated_clusters:
  "(get_aks_data env sub ctx stdin = Inr data \<longrightarrow>
      (\<exists>ps. managed_clusters_list env sub = Some ps \<and>
        (\<forall>d\<in>set data. \<exists>name\<in>set (all_pages ps). map_of d ''Cluster Name'' = Some name))
      \<and> (\<exists>line\<in>set stdin. py_lower (py_strip line) = ''done''))
   \<and> (get_eks_data aenv st = Inr adata \<longrightarrow>
      (\<exists>ps. list_clusters aenv = Some ps \<and>
         map (\<lambda>d. map_of d ''Cluster Name'') adata = map Some (first_page ps)))"
proof (intro conjI impI)
  assume r: "get_aks_data env sub ctx stdin = Inr data"
  then obtain ps where ps: "managed_clusters_list env sub = Some ps"
    and loop: "aks_loop env (all_pages ps) ctx [] stdin = Inr data"
    by (auto simp: get_aks_data_def split: option.splits)
  from aks_loop_entries[OF loop] have
    ent: "\<forall>d\<in>set data. \<exists>name\<in>set (all_pages ps). \<exists>n p c. d = cluster_entry name n p c"
    and sentinel: "\<exists>line\<in>set stdin. py_lower (py_strip line) = ''done''"
    by simp_all
  from ent have "\<forall>d\<in>set data. \<exists>name\<in>set (all_pages ps). map_of d ''Cluster Name'' = Some name"
    by (fastforce simp: cluster_entry_def)
  with ps show "\<exists>ps. managed_clusters_list env sub = Some ps \<and>
        (\<forall>d\<in>set data. \<exists>name\<in>set (all_pages ps). map_of d ''Cluster Name'' = Some name)"
    by blast
  from sentinel show "\<exists>line\<in>set stdin. py_lower (py_strip line) = ''done''" .
next
  assume r: "get_eks_data aenv st = Inr adata"
  then obtain ps where ps: "list_clusters aenv = Some ps"
    and loop: "eks_loop aenv st [] (first_page ps) = Inr adata"
    by (auto simp: get_eks_data_def split: option.splits)
  from eks_loop_entries[OF loop] have
    "list_all2 (\<lambda>c d. \<exists>n p k. d = cluster_entry c n p k) (first_page ps) adata"
    by simp
  then have "list_all2 (\<lambda>c d. map_of d ''Cluster Name'' = Some c) (first_page ps) adata"
    by (rule list_all2_mono) (auto simp: cluster_entry_def)
  then have "map (\<lambda>d. map_of d ''Cluster Name'') adata = map Some (first_page ps)"
    by (induction rule: list_all2_induct) simp_all
  with ps show "\<exists>ps. list_clusters aenv = Some ps \<and>
         map (\<lambda>d. map_of d ''Cluster Name'') adata = map Some (first_page ps)"
    by blast
qed

theorem summaries_name_enumerated_clusters_witness:
  "get_aks_data example_azure_env ''s'' None [''zzz'', ''b'', ''rg'', '' DONE ''] =
     Inr [cluster_entry ''b'' ''2'' ''1'' ''1'']
   \<and> (\<exists>line\<in>set [''zzz'', ''b'', ''rg'', '' DONE '']. py_lower (py_strip line) = ''done'')
   \<and> map (\<lambda>d. map_of d ''Cluster Name'')
        [cluster_entry ''a'' ''1'' ''1'' ''0'', cluster_entry ''b'' ''0'' ''0'' ''0''] =
      map Some (first_page [[''a'', ''b'']])"
proof -
  have run: "get_aks_data example_azure_env ''s'' None [''zzz'', ''b'', ''rg'', '' DONE ''] =
     Inr [cluster_entry ''b'' ''2'' ''1'' ''1'']"
    by code_simp
  have arun: "get_eks_data example_aws_env fresh_state =
     Inr [cluster_entry ''a'' ''1'' ''1'' ''0'', cluster_entry ''b'' ''0'' ''0'' ''0'']"
    by code_simp
  have ps: "list_clusters example_aws_env = Some [[''a'', ''b'']]"
    by (simp add: example_aws_env_def)
  from summaries_name_enumerated_clusters [of example_azure_env "''s''" None
      "[''zzz'', ''b'', ''rg'', '' DONE '']" "[cluster_entry ''b'' ''2'' ''1'' ''1'']"
      example_aws_env fresh_state
      "[cluster_entry ''a'' ''1'' ''1'' ''0'', cluster_entry ''b'' ''0'' ''0'' ''0'']"]
    run arun ps
  show ?thesis by simp
qed

subsection \<open>Repeated collection\<close>

text \<open>In the Azure script, when the credential command is regular, the outcome of a pass
  does not depend on the context it starts from, so a second pass over an unchanged
  cluster repeats the first.\<close>

lemma aks_collect_repeats:
  assumes "credentials_regular env rg name"
    and "aks_collect env ctx rg name = Inr (ctx', r)"
  shows "\<exists>ctx''. aks_collect env ctx' rg name = Inr (ctx'', r)"
proof (cases "fst (az_aks_get_credentials env rg name None) = 0")
  case True
  from credentials_regular_cases(2)[OF assms(1) True]
  have "az_aks_get_credentials env rg name ctx = (0, Some name)"
    "az_aks_get_credentials env rg name ctx' = (0, Some name)" by simp_all
  then show ?thesis using assms(2) by (auto simp: aks_collect_def split: if_splits)
next
  case False
  from credentials_regular_cases(1)[OF assms(1) False]
  have "fst (az_aks_get_credentials env rg name ctx) \<noteq> 0"
    "fst (az_aks_get_credentials env rg name ctx') \<noteq> 0" by simp_all
  then show ?thesis using assms(2) by (auto simp: aks_collect_def split: prod.splits)
qed

text \<open>In the AWS script a pass that starts with \<open>KUBECONFIG\<close> away from
  \<open>kubeconfig.yaml\<close> counts the cluster; every pass leaves \<open>KUBECONFIG\<close> on that file, and
  a pass that starts there truncates it before \<open>kubectl\<close> reads it, so it counts nothing.\<close>

lemma eks_collect_first_pass:
  "eks_access_ok env name \<Longrightarrow> KUBECONFIG st \<noteq> Some Cwd_Kubeconfig_Yaml \<Longrightarrow>
   \<exists>st'. eks_collect env st name = Inr (st', cluster_entry name
        (count_nodes (eks_api env) (Some name)) (count_pods (eks_api env) (Some name))
        (count_containers (eks_api env) (Some name)))
     \<and> KUBECONFIG st' = Some Cwd_Kubeconfig_Yaml"
  using eks_collect_ok[of env name st] by (simp add: eks_context_after_def)

lemma eks_collect_later_pass:
  "eks_access_ok env name \<Longrightarrow> KUBECONFIG st = Some Cwd_Kubeconfig_Yaml \<Longrightarrow>
   \<exists>st'. eks_collect env st name = Inr (st', cluster_entry name ''0'' ''0'' ''0'')
     \<and> KUBECONFIG st' = Some Cwd_Kubeconfig_Yaml"
  using eks_collect_ok[of env name st] by (simp add: eks_context_after_def counts_without_context)

text \<open>
  C9. Two calls of \<open>collect\<close> against the same unchanged cluster are to return identical
  counts. The Azure pass does, for a regular credential command (\<open>aks_collect_repeats\<close>).
  The AWS pass does not: in a
  process started with \<open>KUBECONFIG\<close> unset, the first pass over cluster \<open>b\<close> (two nodes,
  one pod) reports 2, 1, 1 and the second reports 0, 0, 0; the same happens to every
  cluster after the first of one run.
\<close>

theorem second_eks_collect_counts_nothing:
  "(case eks_collect example_aws_env fresh_state ''b'' of
      Inl e \<Rightarrow> None
    | Inr (st', first_pass) \<Rightarrow>
        (case eks_collect example_aws_env st' ''b'' of
           Inl e \<Rightarrow> None
         | Inr (st'', second_pass) \<Rightarrow> Some (first_pass, second_pass)))
     = Some (cluster_entry ''b'' ''2'' ''1'' ''1'', cluster_entry ''b'' ''0'' ''0'' ''0'')
   \<and> get_eks_data example_aws_env fresh_state =
       Inr [cluster_entry ''a'' ''1'' ''1'' ''0'', cluster_entry ''b'' ''0'' ''0'' ''0'']
   \<and> get_eks_data (example_aws_env\<lparr>list_clusters := Some [[''b'', ''a'']]\<rparr>) fresh_state =
       Inr [cluster_entry ''b'' ''2'' ''1'' ''1'', cluster_entry ''a'' ''0'' ''0'' ''0'']"
  by code_simp

subsection \<open>Writing a report and reading it back\<close>

lemma text_syms_Cons:
  "X \<noteq> [] \<Longrightarrow> text_syms (c # X) =
     Ch c # (if c = CHR 0x0A \<or> (c = CHR 0x0D \<and> hd X \<noteq> CHR 0x0A) then [EOL] else []) @ text_syms X"
  by (cases X) auto

lemma text_syms_CRLF:
  "text_syms (CHR 0x0D # CHR 0x0A # rest) = Ch (CHR 0x0D) # Ch (CHR 0x0A) # EOL # text_syms rest"
  by (cases rest) auto

lemma text_syms_LF:
  "text_syms (CHR 0x0A # rest) = Ch (CHR 0x0A) # EOL # text_syms rest"
  by (cases rest) auto

lemma read_quoted_EOL:
  "read_syms (IN_QUOTED_FIELD, field, row) (EOL # xs) = read_syms (IN_QUOTED_FIELD, field, row) xs"
  by simp

lemma read_quoted_char:
  "c \<noteq> CHR 0x22 \<Longrightarrow>
   read_syms (IN_QUOTED_FIELD, field, row) (Ch c # xs) = read_syms (IN_QUOTED_FIELD, field @ [c], row) xs"
  by simp

lemma read_quoted_quote:
  "read_syms (IN_QUOTED_FIELD, field, row) (Ch (CHR 0x22) # Ch (CHR 0x22) # xs) =
   read_syms (IN_QUOTED_FIELD, field @ [CHR 0x22], row) xs"
  by simp

lemma read_quoted_content:
  "rest \<noteq> [] \<Longrightarrow>
   read_syms (IN_QUOTED_FIELD, field, row) (text_syms (csv_escape s @ CHR 0x22 # rest)) =
   read_syms (QUOTE_IN_QUOTED_FIELD, field @ s, row) (text_syms rest)"
proof (induction s arbitrary: field)
  case Nil
  then show ?case by (simp add: csv_escape_def text_syms_Cons)
next
  case (Cons c s)
  have esc: "csv_escape (c # s) = (if c = CHR 0x22 then [c, c] else [c]) @ csv_escape s"
    by (simp add: csv_escape_def)
  have ne: "csv_escape s @ CHR 0x22 # rest \<noteq> []" by simp
  show ?case
  proof (cases "c = CHR 0x22")
    case True
    have "text_syms (csv_escape (c # s) @ CHR 0x22 # rest) =
          Ch (CHR 0x22) # Ch (CHR 0x22) # text_syms (csv_escape s @ CHR 0x22 # rest)"
      unfolding esc using True ne by (simp add: text_syms_Cons)
    then show ?thesis
      using Cons.IH[OF Cons.prems, of "field @ [c]"] True by simp
  next
    case False
    then show ?thesis
      using Cons.IH[OF Cons.prems, of "field @ [c]"] 
      by (simp add: esc text_syms_Cons[OF ne])
  qed
qed

lemma read_unquoted_content:
  "\<not> list_ex csv_special s \<Longrightarrow> rest \<noteq> [] \<Longrightarrow>
   read_syms (IN_FIELD, field, row) (text_syms (s @ rest)) =
   read_syms (IN_FIELD, field @ s, row) (text_syms rest)"
proof (induction s arbitrary: field)
  case Nil
  then show ?case by simp
next
  case (Cons c s)
  have ne: "s @ rest \<noteq> []" using Cons.prems by simp
  have c: "c \<noteq> CHR '',''" "c \<noteq> CHR 0x22" "c \<noteq> CHR 0x0D" "c \<noteq> CHR 0x0A"
    using Cons.prems(1) by (auto simp: csv_special_def)
  have s: "\<not> list_ex csv_special s" using Cons.prems(1) by simp
  show ?case
    using Cons.IH[OF s Cons.prems(2), of "field @ [c]"] c
    by (simp add: text_syms_Cons[OF ne] is_line_end_def)
qed

lemma read_cell:
  assumes "st = START_RECORD \<or> st = START_FIELD" and "rest \<noteq> []"
  shows "read_syms (st, [], row) (text_syms (csv_field s @ rest)) =
         read_syms (if list_ex csv_special s then (QUOTE_IN_QUOTED_FIELD, s, row)
                    else if s = [] then (st, [], row) else (IN_FIELD, s, row))
           (text_syms rest)"
proof (cases "list_ex csv_special s")
  case True
  have "read_syms (st, [], row) (text_syms (CHR 0x22 # csv_escape s @ CHR 0x22 # rest)) =
        read_syms (IN_QUOTED_FIELD, [], row) (text_syms (csv_escape s @ CHR 0x22 # rest))"
    using assms(1) by (auto simp: text_syms_Cons start_field_def is_line_end_def)
  then show ?thesis
    using True read_quoted_content[OF assms(2), of "[]" row s] by (simp add: csv_field_def)
next
  case False
  show ?thesis
  proof (cases s)
    case Nil
    then show ?thesis using False by (simp add: csv_field_def)
  next
    case (Cons c s')
    have c: "c \<noteq> CHR '',''" "c \<noteq> CHR 0x22" "c \<noteq> CHR 0x0D" "c \<noteq> CHR 0x0A"
      using False Cons by (auto simp: csv_special_def)
    have s': "\<not> list_ex csv_special s'" using False Cons by simp
    have ne: "s' @ rest \<noteq> []" using assms(2) by simp
    have "read_syms (st, [], row) (text_syms (c # s' @ rest)) =
          read_syms (IN_FIELD, [c], row) (text_syms (s' @ rest))"
      using assms(1) c by (auto simp: text_syms_Cons[OF ne] start_field_def is_line_end_def)
    then show ?thesis
      using False Cons read_unquoted_content[OF s' assms(2), of "[c]" row]
      by (simp add: csv_field_def)
  qed
qed

lemma read_comma:
  assumes "st \<noteq> IN_QUOTED_FIELD" and "st \<noteq> EAT_CRNL" and "rest \<noteq> []"
  shows "read_syms (st, field, row) (text_syms (CHR '','' # rest)) =
         read_syms (START_FIELD, [], row @ [field]) (text_syms rest)"
  using assms
  by (cases st) (simp_all add: text_syms_Cons start_field_def is_line_end_def parse_save_field_def)

lemma read_crlf:
  assumes "st = START_FIELD \<or> st = IN_FIELD \<or> st = QUOTE_IN_QUOTED_FIELD"
  shows "read_syms (st, field, row) (text_syms (CHR 0x0D # CHR 0x0A # rest)) =
         map_option ((#) (row @ [field])) (read_syms parse_reset (text_syms rest))"
  using assms
  by (auto simp: text_syms_LF start_field_def is_line_end_def parse_save_field_def
        after_line_end_def map_option_case split: option.splits)

lemma read_cells:
  assumes "cells \<noteq> []" and "st = START_FIELD \<or> (st = START_RECORD \<and> cells \<noteq> [[]])"
  shows "read_syms (st, [], row) (text_syms (join_with CHR '','' (map csv_field cells) @ CHR 0x0D # CHR 0x0A # rest)) =
         map_option ((#) (row @ cells)) (read_syms parse_reset (text_syms rest))"
  using assms
proof (induction cells arbitrary: st row rule: list_nonempty_induct)
  case (single s)
  have st: "st = START_RECORD \<or> st = START_FIELD" using single.prems by auto
  have ne: "CHR 0x0D # CHR 0x0A # rest \<noteq> []" by simp
  let ?after = "if list_ex csv_special s then (QUOTE_IN_QUOTED_FIELD, s, row)
                else if s = [] then (st, [], row) else (IN_FIELD, s, row)"
  have "read_syms (st, [], row) (text_syms (csv_field s @ CHR 0x0D # CHR 0x0A # rest)) =
        read_syms ?after (text_syms (CHR 0x0D # CHR 0x0A # rest))"
    by (rule read_cell[OF st ne])
  also have "\<dots> = map_option ((#) (row @ [s])) (read_syms parse_reset (text_syms rest))"
    using single.prems by (auto simp: read_crlf simp del: text_syms.simps read_syms.simps)
  finally show ?case by simp
next
  case (cons s cells)
  obtain s2 more where cells: "cells = s2 # more" using cons.hyps by (cases cells) auto
  have join: "join_with CHR '','' (map csv_field (s # cells)) =
      csv_field s @ CHR '','' # join_with CHR '','' (map csv_field cells)"
    by (simp add: cells)
  have st: "st = START_RECORD \<or> st = START_FIELD" using cons.prems by auto
  let ?tail = "join_with CHR '','' (map csv_field cells) @ CHR 0x0D # CHR 0x0A # rest"
  let ?after = "if list_ex csv_special s then (QUOTE_IN_QUOTED_FIELD, s, row)
                else if s = [] then (st, [], row) else (IN_FIELD, s, row)"
  have ne: "CHR '','' # ?tail \<noteq> []" by simp
  have ne2: "?tail \<noteq> []" by simp
  have "read_syms (st, [], row) (text_syms (csv_field s @ CHR '','' # ?tail)) =
        read_syms ?after (text_syms (CHR '','' # ?tail))"
    by (rule read_cell[OF st ne])
  also have "\<dots> = read_syms (START_FIELD, [], row @ [s]) (text_syms ?tail)"
    using st by (auto simp: read_comma[OF _ _ ne2] simp del: text_syms.simps read_syms.simps)
  also have "\<dots> = map_option ((#) ((row @ [s]) @ cells)) (read_syms parse_reset (text_syms rest))"
    by (rule cons.IH) simp
  finally show ?case unfolding join by simp
qed

lemma read_writerow:
  "read_syms parse_reset (text_syms (csv_writerow cells @ rest)) =
   map_option ((#) cells) (read_syms parse_reset (text_syms rest))"
proof (cases "cells = []")
  case True
  then show ?thesis
    by (auto simp: csv_writerow_def parse_reset_def text_syms_LF map_option_case split: option.splits)
next
  case False
  show ?thesis
  proof (cases "cells = [[]]")
    case True
    have "read_syms (START_RECORD, [], []) (text_syms (CHR 0x22 # CHR 0x22 # CHR 0x0D # CHR 0x0A # rest)) =
          read_syms (QUOTE_IN_QUOTED_FIELD, [], []) (text_syms (CHR 0x0D # CHR 0x0A # rest))"
      by (simp add: start_field_def is_line_end_def)
    then show ?thesis using True
      by (simp add: csv_writerow_def parse_reset_def read_crlf del: text_syms.simps read_syms.simps)
  next
    case nonempty: False
    show ?thesis
      using read_cells[OF False, of START_RECORD "[]" rest] nonempty False
      by (simp add: csv_writerow_def parse_reset_def del: text_syms.simps read_syms.simps)
  qed
qed

lemma csv_reader_writerows:
  "csv_reader (concat (map csv_writerow rows)) = Some rows"
proof (induction rows)
  case Nil
  then show ?case by (simp add: csv_reader_def parse_reset_def)
next
  case (Cons r rows)
  then show ?case using read_writerow[of r "concat (map csv_writerow rows)"]
    by (simp add: csv_reader_def)
qed

lemma dict_writerows_text:
  "\<forall>r\<in>set rows. set (map fst r) \<subseteq> set fieldnames \<Longrightarrow>
   dict_writerows fieldnames rows =
     Some (concat (map (\<lambda>r. csv_writerow (map (dict_get r) fieldnames)) rows))"
  by (induction rows) (auto simp: dict_to_list_def list_ex_iff)

lemma write_csv_text:
  "\<forall>r\<in>set rows. set (map fst r) \<subseteq> set fieldnames \<Longrightarrow>
   write_csv fieldnames rows =
     Some (concat (map csv_writerow (fieldnames # map (\<lambda>r. map (dict_get r) fieldnames) rows)))"
  by (simp add: write_csv_def dict_writerows_text comp_def)

lemma write_csv_reads_back:
  assumes "\<forall>r\<in>set rows. set (map fst r) \<subseteq> set fieldnames"
  shows "\<exists>text body. write_csv fieldnames rows = Some text \<and>
           text = csv_writerow fieldnames @ body \<and>
           csv_reader text = Some (fieldnames # map (\<lambda>r. map (dict_get r) fieldnames) rows)"
proof -
  let ?rows = "fieldnames # map (\<lambda>r. map (dict_get r) fieldnames) rows"
  have "write_csv fieldnames rows = Some (concat (map csv_writerow ?rows))"
    by (rule write_csv_text[OF assms])
  moreover have "csv_reader (concat (map csv_writerow ?rows)) = Some ?rows"
    by (rule csv_reader_writerows)
  moreover have "concat (map csv_writerow ?rows) =
      csv_writerow fieldnames @ concat (map csv_writerow (map (\<lambda>r. map (dict_get r) fieldnames) rows))"
    by simp
  ultimately show ?thesis by blast
qed

lemma cluster_entry_cells:
  "set (map fst (cluster_entry name n p c)) \<subseteq> set cluster_fieldnames"
  "map (dict_get (cluster_entry name n p c)) cluster_fieldnames = [name, n, p, c]"
  by (simp_all add: cluster_entry_def cluster_fieldnames_def dict_get_def)

lemma inventory_row_cells:
  "\<forall>r\<in>set (inventory_rows i). set (map fst r) \<subseteq> set inventory_fieldnames"
  "map (\<lambda>r. map (dict_get r) inventory_fieldnames) (inventory_rows i) =
     map (\<lambda>(k, n). [k, str_nat n]) i"
  by (auto simp: inventory_rows_def inventory_fieldnames_def dict_get_def)

lemma header_text:
  "csv_writerow inventory_fieldnames = ''Resource Type,Count'' @ [CHR 0x0D, CHR 0x0A]"
  "csv_writerow cluster_fieldnames = ''Cluster Name,Nodes,Pods,Containers'' @ [CHR 0x0D, CHR 0x0A]"
  by (simp_all add: csv_writerow_def inventory_fieldnames_def cluster_fieldnames_def
      csv_field_def csv_special_def)

lemma write_reports_files:
  assumes "\<forall>d\<in>set data. \<exists>name n p c. d = cluster_entry name n p c"
  shows "\<exists>inventory_csv cluster_csv ibody cbody.
      write_reports f1 f2 i data = Inr [(f1, inventory_csv), (f2, cluster_csv)]
    \<and> inventory_csv = ''Resource Type,Count'' @ [CHR 0x0D, CHR 0x0A] @ ibody
    \<and> csv_reader inventory_csv =
        Some ([''Resource Type'', ''Count''] # map (\<lambda>(k, n). [k, str_nat n]) i)
    \<and> cluster_csv = ''Cluster Name,Nodes,Pods,Containers'' @ [CHR 0x0D, CHR 0x0A] @ cbody
    \<and> csv_reader cluster_csv =
        Some ([''Cluster Name'', ''Nodes'', ''Pods'', ''Containers''] #
              map (\<lambda>d. [dict_get d ''Cluster Name'', dict_get d ''Nodes'', dict_get d ''Pods'',
                         dict_get d ''Containers'']) data)"
proof -
  from write_csv_reads_back[OF inventory_row_cells(1), of i]
  obtain itext ibody where i: "write_csv inventory_fieldnames (inventory_rows i) = Some itext"
    "itext = csv_writerow inventory_fieldnames @ ibody"
    "csv_reader itext = Some (inventory_fieldnames # map (\<lambda>(k, n). [k, str_nat n]) i)"
    unfolding inventory_row_cells(2) by blast
  have keys: "\<forall>d\<in>set data. set (map fst d) \<subseteq> set cluster_fieldnames"
    using assms by (auto simp: cluster_entry_def cluster_fieldnames_def)
  from write_csv_reads_back[OF keys]
  obtain ctext cbody where c: "write_csv cluster_fieldnames data = Some ctext"
    "ctext = csv_writerow cluster_fieldnames @ cbody"
    "csv_reader ctext = Some (cluster_fieldnames # map (\<lambda>d. map (dict_get d) cluster_fieldnames) data)"
    by blast
  have run: "write_reports f1 f2 i data = Inr [(f1, itext), (f2, ctext)]"
    using i(1) c(1) by (simp add: write_reports_def)
  have ihead: "itext = ''Resource Type,Count'' @ [CHR 0x0D, CHR 0x0A] @ ibody"
    using i(2) by (simp add: header_text)
  have chead: "ctext = ''Cluster Name,Nodes,Pods,Containers'' @ [CHR 0x0D, CHR 0x0A] @ cbody"
    using c(2) by (simp add: header_text)
  have iread: "csv_reader itext =
        Some ([''Resource Type'', ''Count''] # map (\<lambda>(k, n). [k, str_nat n]) i)"
    using i(3) by (simp add: inventory_fieldnames_def)
  have cread: "csv_reader ctext =
        Some ([''Cluster Name'', ''Nodes'', ''Pods'', ''Containers''] #
              map (\<lambda>d. [dict_get d ''Cluster Name'', dict_get d ''Nodes'', dict_get d ''Pods'',
                         dict_get d ''Containers'']) data)"
    using c(3) by (simp add: cluster_fieldnames_def)
  from run ihead iread chead cread show ?thesis by blast
qed

lemma get_aks_data_entries:
  "get_aks_data env sub ctx stdin = Inr data \<Longrightarrow>
   \<forall>d\<in>set data. \<exists>name n p c. d = cluster_entry name n p c"
proof -
  assume "get_aks_data env sub ctx stdin = Inr data"
  then obtain ps where "aks_loop env (all_pages ps) ctx [] stdin = Inr data"
    by (auto simp: get_aks_data_def split: option.splits)
  from aks_loop_entries[OF this]
  have "\<forall>d\<in>set data. \<exists>name\<in>set (all_pages ps). \<exists>n p c. d = cluster_entry name n p c"
    by simp
  then show ?thesis by blast
qed

lemma get_eks_data_entries:
  "get_eks_data env st = Inr data \<Longrightarrow>
   \<forall>d\<in>set data. \<exists>name n p c. d = cluster_entry name n p c"
proof -
  assume "get_eks_data env st = Inr data"
  then obtain ps where "eks_loop env st [] (first_page ps) = Inr data"
    by (auto simp: get_eks_data_def split: option.splits)
  from eks_loop_entries[OF this]
  have "list_all2 (\<lambda>c d. \<exists>n p k. d = cluster_entry c n p k) (first_page ps) data" by simp
  then show ?thesis
    by (induction rule: list_all2_induct) auto
qed

text \<open>
  C6. A run that completes writes exactly two files, the inventory and the cluster
  data. The inventory starts with the line \<open>Resource Type,Count\<close> and, read back as CSV,
  is that header followed by one row \<open>[category, count]\<close> per category of the inventory;
  the cluster data starts with \<open>Cluster Name,Nodes,Pods,Containers\<close> and is that header
  followed by one row per summary of the collector, its values in the order of the
  header. For both scripts.
\<close>

theorem completed_run_writes_two_reports:
  "(azure_main env ctx stdin = Inr files \<longrightarrow>
     (\<exists>line sub rest i data inventory_csv cluster_csv ibody cbody.
        stdin = line # rest \<and> sub = py_strip line
      \<and> azure_get_inventory env sub = Inr i \<and> get_aks_data env sub ctx rest = Inr data
      \<and> files = [(''azure_inventory.csv'', inventory_csv), (''aks_data.csv'', cluster_csv)]
      \<and> inventory_csv = ''Resource Type,Count'' @ [CHR 0x0D, CHR 0x0A] @ ibody
      \<and> csv_reader inventory_csv =
          Some ([''Resource Type'', ''Count''] # map (\<lambda>(k, n). [k, str_nat n]) i)
      \<and> map fst i = [''VMs'', ''Networks'', ''Storage Accounts'', ''AKS Clusters'']
      \<and> cluster_csv = ''Cluster Name,Nodes,Pods,Containers'' @ [CHR 0x0D, CHR 0x0A] @ cbody
      \<and> csv_reader cluster_csv =
          Some ([''Cluster Name'', ''Nodes'', ''Pods'', ''Containers''] #
                map (\<lambda>d. [dict_get d ''Cluster Name'', dict_get d ''Nodes'', dict_get d ''Pods'',
                           dict_get d ''Containers'']) data)))
   \<and> (aws_main aenv st = Inr afiles \<longrightarrow>
     (\<exists>i data inventory_csv cluster_csv ibody cbody.
        aws_get_inventory aenv = Inr i \<and> get_eks_data aenv st = Inr data
      \<and> afiles = [(''aws_inventory.csv'', inventory_csv), (''eks_data.csv'', cluster_csv)]
      \<and> inventory_csv = ''Resource Type,Count'' @ [CHR 0x0D, CHR 0x0A] @ ibody
      \<and> csv_reader inventory_csv =
          Some ([''Resource Type'', ''Count''] # map (\<lambda>(k, n). [k, str_nat n]) i)
      \<and> map fst i = [''EC2 Instances'', ''VPCs'', ''S3 Buckets'', ''EKS Clusters'']
      \<and> cluster_csv = ''Cluster Name,Nodes,Pods,Containers'' @ [CHR 0x0D, CHR 0x0A] @ cbody
      \<and> csv_reader cluster_csv =
          Some ([''Cluster Name'', ''Nodes'', ''Pods'', ''Containers''] #
                map (\<lambda>d. [dict_get d ''Cluster Name'', dict_get d ''Nodes'', dict_get d ''Pods'',
                           dict_get d ''Containers'']) data)))"
proof (intro conjI impI)
  assume run: "azure_main env ctx stdin = Inr files"
  then obtain line sub rest i data where
    stdin: "stdin = line # rest" and sub: "sub = py_strip line" and
    inv: "azure_get_inventory env sub = Inr i" and
    col: "get_aks_data env sub ctx rest = Inr data" and
    wr: "write_reports ''azure_inventory.csv'' ''aks_data.csv'' i data = Inr files"
    by (auto simp: azure_main_def login_azure_def Let_def
        split: if_splits sum.splits prod.splits list.splits)
  have cats: "map fst i = [''VMs'', ''Networks'', ''Storage Accounts'', ''AKS Clusters'']"
    using inv by (auto simp: azure_get_inventory_def split: option.splits)
  from write_reports_files[OF get_aks_data_entries[OF col], of "''azure_inventory.csv''" "''aks_data.csv''" i]
  obtain inventory_csv cluster_csv ibody cbody where
    w: "write_reports ''azure_inventory.csv'' ''aks_data.csv'' i data =
          Inr [(''azure_inventory.csv'', inventory_csv), (''aks_data.csv'', cluster_csv)]"
      "inventory_csv = ''Resource Type,Count'' @ [CHR 0x0D, CHR 0x0A] @ ibody"
      "csv_reader inventory_csv =
          Some ([''Resource Type'', ''Count''] # map (\<lambda>(k, n). [k, str_nat n]) i)"
      "cluster_csv = ''Cluster Name,Nodes,Pods,Containers'' @ [CHR 0x0D, CHR 0x0A] @ cbody"
      "csv_reader cluster_csv =
          Some ([''Cluster Name'', ''Nodes'', ''Pods'', ''Containers''] #
                map (\<lambda>d. [dict_get d ''Cluster Name'', dict_get d ''Nodes'', dict_get d ''Pods'',
                           dict_get d ''Containers'']) data)"
    by blast
  have files: "files = [(''azure_inventory.csv'', inventory_csv), (''aks_data.csv'', cluster_csv)]"
    using wr w(1) by simp
  show "\<exists>line sub rest i data inventory_csv cluster_csv ibody cbody.
        stdin = line # rest \<and> sub = py_strip line
      \<and> azure_get_inventory env sub = Inr i \<and> get_aks_data env sub ctx rest = Inr data
      \<and> files = [(''azure_inventory.csv'', inventory_csv), (''aks_data.csv'', cluster_csv)]
      \<and> inventory_csv = ''Resource Type,Count'' @ [CHR 0x0D, CHR 0x0A] @ ibody
      \<and> csv_reader inventory_csv =
          Some ([''Resource Type'', ''Count''] # map (\<lambda>(k, n). [k, str_nat n]) i)
      \<and> map fst i = [''VMs'', ''Networks'', ''Storage Accounts'', ''AKS Clusters'']
      \<and> cluster_csv = ''Cluster Name,Nodes,Pods,Containers'' @ [CHR 0x0D, CHR 0x0A] @ cbody
      \<and> csv_reader cluster_csv =
          Some ([''Cluster Name'', ''Nodes'', ''Pods'', ''Containers''] #
                map (\<lambda>d. [dict_get d ''Cluster Name'', dict_get d ''Nodes'', dict_get d ''Pods'',
                           dict_get d ''Containers'']) data)"
    by (rule exI[of _ line], rule exI[of _ sub], rule exI[of _ rest], rule exI[of _ i],
        rule exI[of _ data], rule exI[of _ inventory_csv], rule exI[of _ cluster_csv],
        rule exI[of _ ibody], rule exI[of _ cbody], intro conjI;
        (rule stdin sub inv col files w cats))
next
  assume run: "aws_main aenv st = Inr afiles"
  then obtain i data where
    inv: "aws_get_inventory aenv = Inr i" and
    col: "get_eks_data aenv st = Inr data" and
    wr: "write_reports ''aws_inventory.csv'' ''eks_data.csv'' i data = Inr afiles"
    by (auto simp: aws_main_def split: if_splits sum.splits)
  have cats: "map fst i = [''EC2 Instances'', ''VPCs'', ''S3 Buckets'', ''EKS Clusters'']"
    using inv by (auto simp: aws_get_inventory_def split: option.splits)
  from write_reports_files[OF get_eks_data_entries[OF col], of "''aws_inventory.csv''" "''eks_data.csv''" i]
  obtain inventory_csv cluster_csv ibody cbody where
    w: "write_reports ''aws_inventory.csv'' ''eks_data.csv'' i data =
          Inr [(''aws_inventory.csv'', inventory_csv), (''eks_data.csv'', cluster_csv)]"
      "inventory_csv = ''Resource Type,Count'' @ [CHR 0x0D, CHR 0x0A] @ ibody"
      "csv_reader inventory_csv =
          Some ([''Resource Type'', ''Count''] # map (\<lambda>(k, n). [k, str_nat n]) i)"
      "cluster_csv = ''Cluster Name,Nodes,Pods,Containers'' @ [CHR 0x0D, CHR 0x0A] @ cbody"
      "csv_reader cluster_csv =
          Some ([''Cluster Name'', ''Nodes'', ''Pods'', ''Containers''] #
                map (\<lambda>d. [dict_get d ''Cluster Name'', dict_get d ''Nodes'', dict_get d ''Pods'',
                           dict_get d ''Containers'']) data)"
    by blast
  have files: "afiles = [(''aws_inventory.csv'', inventory_csv), (''eks_data.csv'', cluster_csv)]"
    using wr w(1) by simp
  show "\<exists>i data inventory_csv cluster_csv ibody cbody.
        aws_get_inventory aenv = Inr i \<and> get_eks_data aenv st = Inr data
      \<and> afiles = [(''aws_inventory.csv'', inventory_csv), (''eks_data.csv'', cluster_csv)]
      \<and> inventory_csv = ''Resource Type,Count'' @ [CHR 0x0D, CHR 0x0A] @ ibody
      \<and> csv_reader inventory_csv =
          Some ([''Resource Type'', ''Count''] # map (\<lambda>(k, n). [k, str_nat n]) i)
      \<and> map fst i = [''EC2 Instances'', ''VPCs'', ''S3 Buckets'', ''EKS Clusters'']
      \<and> cluster_csv = ''Cluster Name,Nodes,Pods,Containers'' @ [CHR 0x0D, CHR 0x0A] @ cbody
      \<and> csv_reader cluster_csv =
          Some ([''Cluster Name'', ''Nodes'', ''Pods'', ''Containers''] #
                map (\<lambda>d. [dict_get d ''Cluster Name'', dict_get d ''Nodes'', dict_get d ''Pods'',
                           dict_get d ''Containers'']) data)"
    by (rule exI[of _ i], rule exI[of _ data],
        rule exI[of _ inventory_csv], rule exI[of _ cluster_csv], rule exI[of _ ibody],
        rule exI[of _ cbody], intro conjI; (rule inv col files w cats))
qed

theorem completed_run_writes_two_reports_witness:
  "(\<exists>inventory_csv cluster_csv.
      azure_main example_azure_env None
        [''01234567-89ab-CDEF-0123-456789abcdef'', ''b'', ''rg'', ''done''] =
        Inr [(''azure_inventory.csv'', inventory_csv), (''aks_data.csv'', cluster_csv)]
    \<and> csv_reader inventory_csv =
        Some [[''Resource Type'', ''Count''], [''VMs'', ''3''], [''Networks'', ''1''],
              [''Storage Accounts'', ''0''], [''AKS Clusters'', ''3'']]
    \<and> csv_reader cluster_csv =
        Some [[''Cluster Name'', ''Nodes'', ''Pods'', ''Containers''], [''b'', ''2'', ''1'', ''1'']])
   \<and> (\<exists>inventory_csv cluster_csv.
      aws_main example_aws_env fresh_state =
        Inr [(''aws_inventory.csv'', inventory_csv), (''eks_data.csv'', cluster_csv)]
    \<and> csv_reader inventory_csv =
        Some [[''Resource Type'', ''Count''], [''EC2 Instances'', ''2''], [''VPCs'', ''1''],
              [''S3 Buckets'', ''0''], [''EKS Clusters'', ''2'']]
    \<and> csv_reader cluster_csv =
        Some [[''Cluster Name'', ''Nodes'', ''Pods'', ''Containers''], [''a'', ''1'', ''1'', ''0''],
              [''b'', ''0'', ''0'', ''0'']])"
proof -
  let ?stdin = "[''01234567-89ab-CDEF-0123-456789abcdef'', ''b'', ''rg'', ''done'']"
  let ?zfiles = "[(''azure_inventory.csv'', concat (map csv_writerow
        [[''Resource Type'', ''Count''], [''VMs'', ''3''], [''Networks'', ''1''],
         [''Storage Accounts'', ''0''], [''AKS Clusters'', ''3'']])),
      (''aks_data.csv'', concat (map csv_writerow
        [[''Cluster Name'', ''Nodes'', ''Pods'', ''Containers''], [''b'', ''2'', ''1'', ''1'']]))]"
  let ?afiles = "[(''aws_inventory.csv'', concat (map csv_writerow
        [[''Resource Type'', ''Count''], [''EC2 Instances'', ''2''], [''VPCs'', ''1''],
         [''S3 Buckets'', ''0''], [''EKS Clusters'', ''2'']])),
      (''eks_data.csv'', concat (map csv_writerow
        [[''Cluster Name'', ''Nodes'', ''Pods'', ''Containers''], [''a'', ''1'', ''1'', ''0''],
         [''b'', ''0'', ''0'', ''0'']]))]"
  have zrun: "azure_main example_azure_env None ?stdin = Inr ?zfiles"
    by code_simp
  have arun: "aws_main example_aws_env fresh_state = Inr ?afiles"
    by code_simp
  have zinv: "\<And>sub. azure_get_inventory example_azure_env sub =
      Inr [(''VMs'', 3), (''Networks'', 1), (''Storage Accounts'', 0), (''AKS Clusters'', 3)]"
    by (simp add: azure_get_inventory_def example_azure_env_def all_pages_def)
  have zcol: "\<And>sub. get_aks_data example_azure_env sub None [''b'', ''rg'', ''done''] =
      Inr [cluster_entry ''b'' ''2'' ''1'' ''1'']"
    by code_simp
  have ainv: "aws_get_inventory example_aws_env =
      Inr [(''EC2 Instances'', 2), (''VPCs'', 1), (''S3 Buckets'', 0), (''EKS Clusters'', 2)]"
    by code_simp
  have acol: "get_eks_data example_aws_env fresh_state =
      Inr [cluster_entry ''a'' ''1'' ''1'' ''0'', cluster_entry ''b'' ''0'' ''0'' ''0'']"
    by code_simp
  have digits: "str_nat 0 = ''0''" "str_nat (Suc 0) = ''1''" "str_nat 2 = ''2''" "str_nat 3 = ''3''"
    by code_simp+
  note both = completed_run_writes_two_reports [of example_azure_env None ?stdin ?zfiles
      example_aws_env fresh_state ?afiles]
  from both[THEN conjunct1, THEN mp, OF zrun]
  obtain line sub rest i data inventory_csv cluster_csv ibody cbody where
    z: "?stdin = line # rest" "sub = py_strip line"
      "azure_get_inventory example_azure_env sub = Inr i"
      "get_aks_data example_azure_env sub None rest = Inr data"
      "?zfiles = [(''azure_inventory.csv'', inventory_csv), (''aks_data.csv'', cluster_csv)]"
      "csv_reader inventory_csv =
          Some ([''Resource Type'', ''Count''] # map (\<lambda>(k, n). [k, str_nat n]) i)"
      "csv_reader cluster_csv =
          Some ([''Cluster Name'', ''Nodes'', ''Pods'', ''Containers''] #
                map (\<lambda>d. [dict_get d ''Cluster Name'', dict_get d ''Nodes'', dict_get d ''Pods'',
                           dict_get d ''Containers'']) data)"
    by blast
  have zrest: "rest = [''b'', ''rg'', ''done'']" using z(1) by simp
  have zi: "i = [(''VMs'', 3), (''Networks'', 1), (''Storage Accounts'', 0), (''AKS Clusters'', 3)]"
    using z(3) zinv by simp
  have zdata: "data = [cluster_entry ''b'' ''2'' ''1'' ''1'']"
    using z(4) zcol zrest by simp
  have z1: "csv_reader inventory_csv =
        Some [[''Resource Type'', ''Count''], [''VMs'', ''3''], [''Networks'', ''1''],
              [''Storage Accounts'', ''0''], [''AKS Clusters'', ''3'']]"
    using z(6) unfolding zi by (simp add: digits)
  have z2: "csv_reader cluster_csv =
        Some [[''Cluster Name'', ''Nodes'', ''Pods'', ''Containers''], [''b'', ''2'', ''1'', ''1'']]"
    using z(7) unfolding zdata by (simp add: cluster_entry_def dict_get_def)
  have z0: "azure_main example_azure_env None ?stdin =
        Inr [(''azure_inventory.csv'', inventory_csv), (''aks_data.csv'', cluster_csv)]"
    using zrun z(5) by simp
  from z0 z1 z2 have azure: "\<exists>inventory_csv cluster_csv.
      azure_main example_azure_env None ?stdin =
        Inr [(''azure_inventory.csv'', inventory_csv), (''aks_data.csv'', cluster_csv)]
    \<and> csv_reader inventory_csv =
        Some [[''Resource Type'', ''Count''], [''VMs'', ''3''], [''Networks'', ''1''],
              [''Storage Accounts'', ''0''], [''AKS Clusters'', ''3'']]
    \<and> csv_reader cluster_csv =
        Some [[''Cluster Name'', ''Nodes'', ''Pods'', ''Containers''], [''b'', ''2'', ''1'', ''1'']]"
    by blast
  from both[THEN conjunct2, THEN mp, OF arun]
  obtain ai adata ainventory_csv acluster_csv aibody acbody where
    w: "aws_get_inventory example_aws_env = Inr ai"
      "get_eks_data example_aws_env fresh_state = Inr adata"
      "?afiles = [(''aws_inventory.csv'', ainventory_csv), (''eks_data.csv'', acluster_csv)]"
      "csv_reader ainventory_csv =
          Some ([''Resource Type'', ''Count''] # map (\<lambda>(k, n). [k, str_nat n]) ai)"
      "csv_reader acluster_csv =
          Some ([''Cluster Name'', ''Nodes'', ''Pods'', ''Containers''] #
                map (\<lambda>d. [dict_get d ''Cluster Name'', dict_get d ''Nodes'', dict_get d ''Pods'',
                           dict_get d ''Containers'']) adata)"
    by blast
  have wi: "ai = [(''EC2 Instances'', 2), (''VPCs'', 1), (''S3 Buckets'', 0), (''EKS Clusters'', 2)]"
    using w(1) ainv by simp
  have wdata: "adata = [cluster_entry ''a'' ''1'' ''1'' ''0'', cluster_entry ''b'' ''0'' ''0'' ''0'']"
    using w(2) acol by simp
  have w1: "csv_reader ainventory_csv =
        Some [[''Resource Type'', ''Count''], [''EC2 Instances'', ''2''], [''VPCs'', ''1''],
              [''S3 Buckets'', ''0''], [''EKS Clusters'', ''2'']]"
    using w(4) unfolding wi by (simp add: digits)
  have w2: "csv_reader acluster_csv =
        Some [[''Cluster Name'', ''Nodes'', ''Pods'', ''Containers''], [''a'', ''1'', ''1'', ''0''],
              [''b'', ''0'', ''0'', ''0'']]"
    using w(5) unfolding wdata by (simp add: cluster_entry_def dict_get_def)
  have w0: "aws_main example_aws_env fresh_state =
        Inr [(''aws_inventory.csv'', ainventory_csv), (''eks_data.csv'', acluster_csv)]"
    using arun w(3) by simp
  from w0 w1 w2 have aws: "\<exists>inventory_csv cluster_csv.
      aws_main example_aws_env fresh_state =
        Inr [(''aws_inventory.csv'', inventory_csv), (''eks_data.csv'', cluster_csv)]
    \<and> csv_reader inventory_csv =
        Some [[''Resource Type'', ''Count''], [''EC2 Instances'', ''2''], [''VPCs'', ''1''],
              [''S3 Buckets'', ''0''], [''EKS Clusters'', ''2'']]
    \<and> csv_reader cluster_csv =
        Some [[''Cluster Name'', ''Nodes'', ''Pods'', ''Containers''], [''a'', ''1'', ''1'', ''0''],
              [''b'', ''0'', ''0'', ''0'']]"
    by blast
  from azure aws show ?thesis by (rule conjI)
qed

text \<open>
  C7. Whatever the name of a cluster holds (commas, double quotes, line breaks), the
  cluster report, read back as CSV, gives the header and then, for every summary, its
  name and its counts unchanged: a value with a comma, a double quote or a line break
  is written between double quotes, its double quotes doubled, and the reader undoes
  exactly that.
\<close>

theorem cluster_names_survive_csv_round_trip:
  "\<exists>text. write_csv cluster_fieldnames
              (map (\<lambda>(name, n, p, c). cluster_entry name n p c) summaries) = Some text
     \<and> csv_reader text =
         Some (cluster_fieldnames # map (\<lambda>(name, n, p, c). [name, n, p, c]) summaries)"
proof -
  let ?rows = "map (\<lambda>(name, n, p, c). cluster_entry name n p c) summaries"
  have keys: "\<forall>r\<in>set ?rows. set (map fst r) \<subseteq> set cluster_fieldnames"
    by (auto simp: cluster_entry_def cluster_fieldnames_def)
  have cells: "map (\<lambda>r. map (dict_get r) cluster_fieldnames) ?rows =
      map (\<lambda>(name, n, p, c). [name, n, p, c]) summaries"
    by (auto simp: cluster_entry_cells(2))
  from write_csv_reads_back[OF keys] show ?thesis unfolding cells by blast
qed

theorem cluster_names_survive_csv_round_trip_witness:
  "\<exists>text. write_csv cluster_fieldnames
       [cluster_entry ''prod,eu'' ''3'' ''10'' ''12'',
        cluster_entry [CHR ''x'', CHR 0x0D, CHR 0x0A, CHR 0x22, CHR ''y''] ''0'' ''0'' ''0''] = Some text
     \<and> csv_reader text =
         Some [[''Cluster Name'', ''Nodes'', ''Pods'', ''Containers''],
               [''prod,eu'', ''3'', ''10'', ''12''],
               [[CHR ''x'', CHR 0x0D, CHR 0x0A, CHR 0x22, CHR ''y''], ''0'', ''0'', ''0'']]"
  using cluster_names_survive_csv_round_trip
    [of "[(''prod,eu'', ''3'', ''10'', ''12''),
          ([CHR ''x'', CHR 0x0D, CHR 0x0A, CHR 0x22, CHR ''y''], ''0'', ''0'', ''0'')]"]
  by (simp add: cluster_fieldnames_def)

text \<open>
  C10. The sentinel is compared after stripping and lower-casing: \<open>Done\<close> and \<open> DONE \<close>
  both end the selection. When the sentinel comes before any cluster is accepted (only
  names outside the enumerated list were typed before it), \<open>get_aks_data\<close> returns the
  empty list, and a run that got that far writes a cluster report that is the header
  line alone.
\<close>

theorem sentinel_before_any_cluster_gives_header_only:
  "py_lower (py_strip ''Done'') = ''done'' \<and> py_lower (py_strip '' DONE '') = ''done''
   \<and> (managed_clusters_list env sub = Some ps \<and>
       (\<forall>l\<in>set junk. py_strip l \<notin> set (all_pages ps)) \<and>
       py_lower (py_strip sentinel) = ''done''
       \<longrightarrow> get_aks_data env sub ctx (junk @ sentinel # rest) = Inr [])
   \<and> (azure_tools_ok env \<and> interactive_browser_credential env \<and>
       subscription_id_match (py_strip idline) \<and>
       azure_get_inventory env (py_strip idline) = Inr i \<and>
       managed_clusters_list env (py_strip idline) = Some ps' \<and>
       (\<forall>l\<in>set junk. py_strip l \<notin> set (all_pages ps')) \<and>
       py_lower (py_strip sentinel) = ''done''
       \<longrightarrow> (\<exists>inventory_csv. azure_main env ctx (idline # junk @ sentinel # rest) =
             Inr [(''azure_inventory.csv'', inventory_csv),
                  (''aks_data.csv'', ''Cluster Name,Nodes,Pods,Containers'' @ [CHR 0x0D, CHR 0x0A])]))"
proof (intro conjI impI)
  show "py_lower (py_strip ''Done'') = ''done''" by code_simp
  show "py_lower (py_strip '' DONE '') = ''done''" by code_simp
next
  assume "managed_clusters_list env sub = Some ps \<and>
       (\<forall>l\<in>set junk. py_strip l \<notin> set (all_pages ps)) \<and>
       py_lower (py_strip sentinel) = ''done''"
  then show "get_aks_data env sub ctx (junk @ sentinel # rest) = Inr []"
    by (simp add: get_aks_data_def aks_loop_rejected_then_done)
next
  assume h: "azure_tools_ok env \<and> interactive_browser_credential env \<and>
       subscription_id_match (py_strip idline) \<and>
       azure_get_inventory env (py_strip idline) = Inr i \<and>
       managed_clusters_list env (py_strip idline) = Some ps' \<and>
       (\<forall>l\<in>set junk. py_strip l \<notin> set (all_pages ps')) \<and>
       py_lower (py_strip sentinel) = ''done''"
  then have col: "get_aks_data env (py_strip idline) ctx (junk @ sentinel # rest) = Inr []"
    by (simp add: get_aks_data_def aks_loop_rejected_then_done)
  obtain inventory_csv where
    icsv: "write_csv inventory_fieldnames (inventory_rows i) = Some inventory_csv"
    using write_csv_text[OF inventory_row_cells(1), of i] by blast
  have ccsv: "write_csv cluster_fieldnames [] =
      Some (''Cluster Name,Nodes,Pods,Containers'' @ [CHR 0x0D, CHR 0x0A])"
    by (simp add: write_csv_def header_text)
  have "azure_main env ctx (idline # junk @ sentinel # rest) =
      Inr [(''azure_inventory.csv'', inventory_csv),
           (''aks_data.csv'', ''Cluster Name,Nodes,Pods,Containers'' @ [CHR 0x0D, CHR 0x0A])]"
    using h col icsv ccsv by (simp add: azure_main_def login_azure_def write_reports_def)
  then show "\<exists>inventory_csv. azure_main env ctx (idline # junk @ sentinel # rest) =
             Inr [(''azure_inventory.csv'', inventory_csv),
                  (''aks_data.csv'', ''Cluster Name,Nodes,Pods,Containers'' @ [CHR 0x0D, CHR 0x0A])]"
    by blast
qed

theorem sentinel_before_any_cluster_gives_header_only_witness:
  "get_aks_data example_azure_env ''s'' None ([''zzz''] @ '' DONE '' # [''b'', ''rg'']) = Inr []
   \<and> (\<exists>inventory_csv. azure_main example_azure_env None
          (''01234567-89ab-CDEF-0123-456789abcdef'' # [''zzz''] @ '' DONE '' # [''b'', ''rg'']) =
        Inr [(''azure_inventory.csv'', inventory_csv),
             (''aks_data.csv'', ''Cluster Name,Nodes,Pods,Containers'' @ [CHR 0x0D, CHR 0x0A])])"
proof -
  let ?id = "''01234567-89ab-CDEF-0123-456789abcdef''"
  have h: "managed_clusters_list example_azure_env ''s'' = Some [[''a'', ''b''], [''empty'']]"
    "managed_clusters_list example_azure_env (py_strip ?id) = Some [[''a'', ''b''], [''empty'']]"
    "azure_tools_ok example_azure_env" "interactive_browser_credential example_azure_env"
    by (simp_all add: example_azure_env_def)
  have junk: "\<forall>l\<in>set [''zzz'']. py_strip l \<notin> set (all_pages [[''a'', ''b''], [''empty'']])"
    by code_simp
  have sent: "py_lower (py_strip '' DONE '') = ''done''" by code_simp
  have idok: "subscription_id_match (py_strip ?id)" by code_simp
  have inv: "azure_get_inventory example_azure_env (py_strip ?id) =
      Inr [(''VMs'', 3), (''Networks'', 1), (''Storage Accounts'', 0), (''AKS Clusters'', 3)]"
    by (simp add: azure_get_inventory_def example_azure_env_def all_pages_def)
  from sentinel_before_any_cluster_gives_header_only [of example_azure_env "''s''"
      "[[''a'', ''b''], [''empty'']]" "[''zzz'']" "'' DONE ''" None "[''b'', ''rg'']" ?id
      "[(''VMs'', 3), (''Networks'', 1), (''Storage Accounts'', 0), (''AKS Clusters'', 3)]"
      "[[''a'', ''b''], [''empty'']]"]
    h junk sent idok inv
  show ?thesis by blast
qed

end
